theory Spec2Isabelle
  imports
    Complex_Main
    "HOL-Library.Char_ord"
    "HOL-Library.List_Lexorder"
    "HOL-Library.Log_Nat"
    "HOL-Library.Product_Lexorder"
begin

section \<open>Values, series and frames\<close>

text \<open>
  A pandas cell is a missing value (\<open>NaN\<close>, \<open>None\<close>, \<open>NaT\<close>), a machine number, a string
  or a timestamp. \<open>Int64 i\<close> is an entry of an \<open>int64\<close> column. An entry of a \<open>float64\<close>
  column is \<open>Num r\<close> when it is finite, \<open>r\<close> being its exact value, and \<open>Infinity b\<close>
  when it is infinite (\<open>b\<close> for the positive one); the two zeros of \<open>float64\<close> are not
  told apart. A column has one dtype, so \<open>Int64\<close> and \<open>Num\<close> do not meet in a column
  that \<open>read_csv\<close> builds. A timestamp is identified with its ISO-8601 text, which is
  also the text that \<open>to_sql\<close> stores for it. Python's \<open>True\<close> and \<open>False\<close> compare and
  multiply as 1 and 0 and are \<open>Int64 1\<close> and \<open>Int64 0\<close> here.
\<close>

datatype cell = Null | Int64 int | Num rat | Infinity bool | Str string | Timestamp string

datatype error =
    FileNotFoundError string
  | KeyError string
  | ValueError
  | TypeError
  | OSError
  | DatabaseError
  | AttributeError

type_synonym series = "cell list"

text \<open>
  A DataFrame is column-major, as in pandas: a row index (a \<open>RangeIndex\<close> of \<open>nrows\<close>
  entries, which is what \<open>read_csv\<close> builds) and the labelled columns in their order.
  Labels may repeat (\<open>rename\<close> can make two columns share one).
\<close>

record frame =
  nrows :: nat
  columns :: "(string \<times> series) list"

definition wf_frame :: "frame \<Rightarrow> bool" where
  "wf_frame f = list_all (\<lambda>(n, s). length s = nrows f) (columns f)"

definition labels :: "frame \<Rightarrow> string list" where
  "labels f = map fst (columns f)"

text \<open>
  \<open>df[name]\<close>: a missing label raises \<open>KeyError\<close>. A label carried by several columns
  selects a two-dimensional frame; every use the program makes of such a selection
  raises (\<open>to_datetime\<close> cannot assemble duplicate keys, a several-column frame cannot
  be assigned to one column, the truth value of a Series is ambiguous in the labelling
  lambda, a grouper must be one-dimensional), so the selection itself is the error.
\<close>

definition getitem :: "frame \<Rightarrow> string \<Rightarrow> error + series" where
  "getitem f name =
     (case filter (\<lambda>(n, s). n = name) (columns f) of
        [] \<Rightarrow> Inl (KeyError name)
      | [(n, s)] \<Rightarrow> Inr s
      | _ \<Rightarrow> Inl ValueError)"

text \<open>
  \<open>df[name] = s\<close>: an existing label keeps its position and takes the new values, a
  new label is appended as the last column.
\<close>

definition setitem :: "string \<Rightarrow> series \<Rightarrow> frame \<Rightarrow> frame" where
  "setitem name s f =
     (if name \<in> set (labels f)
      then f\<lparr>columns := map (\<lambda>(n, old). if n = name then (n, s) else (n, old)) (columns f)\<rparr>
      else f\<lparr>columns := columns f @ [(name, s)]\<rparr>)"

text \<open>
  \<open>df.rename(columns=m, inplace=True)\<close>: every label that is a key of \<open>m\<close> is replaced,
  a key that labels no column is ignored, comparison is exact (case-sensitive).
\<close>

definition rename_label :: "(string \<times> string) list \<Rightarrow> string \<Rightarrow> string" where
  "rename_label m n = (case map_of m n of Some n' \<Rightarrow> n' | None \<Rightarrow> n)"

definition rename :: "(string \<times> string) list \<Rightarrow> frame \<Rightarrow> frame" where
  "rename m f = f\<lparr>columns := map (\<lambda>(n, s). (rename_label m n, s)) (columns f)\<rparr>"

section \<open>Machine arithmetic and operations on a series\<close>

text \<open>
  \<open>int64\<close> arithmetic wraps: the result is the representative of the exact result
  modulo \<open>2^64\<close> in the range from \<open>-2^63\<close> up to \<open>2^63\<close>.
\<close>

definition wrap64 :: "int \<Rightarrow> int" where
  "wrap64 i = (i + 2 ^ 63) mod 2 ^ 64 - 2 ^ 63"

text \<open>
  \<open>float64\<close> arithmetic rounds: the result of an operation is the exact result rounded
  to the nearest \<open>binary64\<close> number, the one with the even significand when two are
  equally near (IEEE 754). The numbers around \<open>q\<close> are the multiples of \<open>2^p\<close>, where
  \<open>p\<close> is 52 below the binary exponent of \<open>q\<close> and at least \<open>-1074\<close> (the subnormal
  numbers); \<open>round_double q\<close> is the nearest of them. A result of magnitude \<open>2^1024\<close> or
  more, which is one of binary exponent 1024 or more, is infinite.
\<close>

definition pow2 :: "int \<Rightarrow> rat" where
  "pow2 e = (if 0 \<le> e then 2 ^ nat e else 1 / 2 ^ nat (- e))"

definition floor_log2 :: "rat \<Rightarrow> int" where
  "floor_log2 q =
     (case quotient_of q of
        (a, b) \<Rightarrow> let e = bitlen a - bitlen b in if pow2 e \<le> q then e else e - 1)"

definition round_half_even :: "rat \<Rightarrow> int" where
  "round_half_even x =
     (let f = \<lfloor>x\<rfloor>; d = x - of_int f
      in if d < 1 / 2 then f else if 1 / 2 < d then f + 1 else if even f then f else f + 1)"

definition round_double :: "rat \<Rightarrow> rat" where
  "round_double q =
     (if q = 0 then 0
      else let p = max (floor_log2 \<bar>q\<bar> - 52) (- 1074)
           in of_int (round_half_even (q / pow2 p)) * pow2 p)"

definition to_double :: "rat \<Rightarrow> cell" where
  "to_double q =
     (let r = round_double q
      in if r \<noteq> 0 \<and> 1024 \<le> floor_log2 \<bar>r\<bar> then Infinity (0 < q) else Num r)"

text \<open>
  \<open>series * k\<close> with an integer constant, element by element, in the arithmetic of the
  column: a missing value stays missing, an \<open>int64\<close> product wraps, a \<open>float64\<close> product
  (of the value and the constant converted to \<open>float64\<close>) rounds, an infinite value
  stays infinite unless the constant is 0, a string of an object column is repeated
  (Python's \<open>str * int\<close>), a timestamp raises \<open>TypeError\<close>.
\<close>

fun py_mul :: "cell \<Rightarrow> nat \<Rightarrow> error + cell" where
  "py_mul Null k = Inr Null"
| "py_mul (Int64 i) k = Inr (Int64 (wrap64 (i * int k)))"
| "py_mul (Num r) k = Inr (to_double (r * round_double (of_nat k)))"
| "py_mul (Infinity b) k = Inr (if k = 0 then Null else Infinity b)"
| "py_mul (Str s) k = Inr (Str (concat (replicate k s)))"
| "py_mul (Timestamp t) k = Inl TypeError"

fun map_err :: "('a \<Rightarrow> error + 'b) \<Rightarrow> 'a list \<Rightarrow> error + 'b list" where
  "map_err g [] = Inr []"
| "map_err g (x # xs) =
     (case g x of
        Inl e \<Rightarrow> Inl e
      | Inr y \<Rightarrow> (case map_err g xs of Inl e \<Rightarrow> Inl e | Inr ys \<Rightarrow> Inr (y # ys)))"

definition series_mul :: "series \<Rightarrow> nat \<Rightarrow> error + series" where
  "series_mul s k = map_err (\<lambda>c. py_mul c k) s"

text \<open>The labelling lambda \<open>'Working Day' if x == 1 else 'Weekend/Holiday'\<close>.\<close>

definition day_type_label :: "cell \<Rightarrow> cell" where
  "day_type_label x =
     (if x = Int64 1 \<or> x = Num 1 then Str ''Working Day'' else Str ''Weekend/Holiday'')"

section \<open>The statements of the loaders\<close>

text \<open>
  Each statement of a loader body is a step on the frame that either raises or yields
  the updated frame. The frame is mutated in place, so when a step raises, the object
  keeps the frame as the last successful step left it.
\<close>

fun run_steps :: "(frame \<Rightarrow> error + frame) list \<Rightarrow> frame \<Rightarrow> error option \<times> frame" where
  "run_steps [] f = (None, f)"
| "run_steps (s # ss) f =
     (case s f of Inl e \<Rightarrow> (Some e, f) | Inr f' \<Rightarrow> run_steps ss f')"

definition rename_step :: "(string \<times> string) list \<Rightarrow> frame \<Rightarrow> error + frame" where
  "rename_step m f = Inr (rename m f)"

text \<open>
  \<open>df['date'] = pd.to_datetime(df['date'])\<close>. The parser is pandas' own and is a
  parameter: \<open>to_datetime c = None\<close> when the cell does not parse, which is fatal.
\<close>

definition convert_date :: "(cell \<Rightarrow> cell option) \<Rightarrow> frame \<Rightarrow> error + frame" where
  "convert_date to_datetime f =
     (case getitem f ''date'' of
        Inl e \<Rightarrow> Inl e
      | Inr s \<Rightarrow>
          (case those (map to_datetime s) of
             None \<Rightarrow> Inl ValueError
           | Some s' \<Rightarrow> Inr (setitem ''date'' s' f)))"

text \<open>\<open>df[target] = df[source] * k\<close>.\<close>

definition derive_scaled :: "string \<Rightarrow> string \<Rightarrow> nat \<Rightarrow> frame \<Rightarrow> error + frame" where
  "derive_scaled target source k f =
     (case getitem f source of
        Inl e \<Rightarrow> Inl e
      | Inr s \<Rightarrow>
          (case series_mul s k of
             Inl e \<Rightarrow> Inl e
           | Inr s' \<Rightarrow> Inr (setitem target s' f)))"

text \<open>\<open>df['day_type'] = df[source].apply(lambda x: ...)\<close>.\<close>

definition derive_day_type :: "string \<Rightarrow> frame \<Rightarrow> error + frame" where
  "derive_day_type source f =
     (case getitem f source of
        Inl e \<Rightarrow> Inl e
      | Inr s \<Rightarrow> Inr (setitem ''day_type'' (map day_type_label s) f))"

text \<open>The rename dictionary of \<open>BikeDataLoader.load_and_clean\<close> (src/data_loader.py).\<close>

definition rename_map :: "(string \<times> string) list" where
  "rename_map =
     [(''dteday'', ''date''), (''yr'', ''year''), (''mnth'', ''month''), (''hr'', ''hour''),
      (''weathersit'', ''weather_code''), (''cnt'', ''total_rentals''),
      (''hum'', ''humidity_norm''), (''atemp'', ''feel_temp_norm''),
      (''workingday'', ''is_working_day'')]"

text \<open>The rename dictionary of \<open>BikeDataPipeline.process_data\<close> (thesis_analysis.py).\<close>

definition column_map :: "(string \<times> string) list" where
  "column_map =
     [(''dteday'', ''date''), (''yr'', ''year''), (''mnth'', ''month''), (''hr'', ''hour''),
      (''weathersit'', ''weather_code''), (''cnt'', ''total_rentals''),
      (''hum'', ''humidity_norm''), (''atemp'', ''feel_temp_norm'')]"

definition loader_steps :: "(cell \<Rightarrow> cell option) \<Rightarrow> (frame \<Rightarrow> error + frame) list" where
  "loader_steps to_datetime =
     [rename_step rename_map,
      convert_date to_datetime,
      derive_scaled ''temp_c'' ''temp'' 41,
      derive_scaled ''humidity_real'' ''humidity_norm'' 100,
      derive_scaled ''wind_speed_real'' ''windspeed'' 67,
      derive_day_type ''is_working_day'']"

definition pipeline_steps :: "(frame \<Rightarrow> error + frame) list" where
  "pipeline_steps =
     [rename_step column_map,
      derive_scaled ''temp_c'' ''temp'' 41,
      derive_scaled ''humidity_real'' ''humidity_norm'' 100,
      derive_scaled ''wind_speed_real'' ''windspeed'' 67,
      derive_day_type ''workingday'']"

section \<open>SQLite values and tables\<close>

text \<open>
  \<open>to_sql\<close> stores a missing value as \<open>NULL\<close>, a number in a numeric column (an
  \<open>INTEGER\<close> or a \<open>REAL\<close>: SQLite compares, groups and sorts the two by value, and
  \<open>SNum\<close> is the value; \<open>SInf\<close> is an infinite \<open>REAL\<close>) and a string or a timestamp as
  text. \<open>sql_key\<close> is SQLite's sort order: \<open>NULL\<close> first, then numbers by value, then
  text by its bytes (the \<open>BINARY\<close> collation).
\<close>

datatype sqlval = SNull | SNum rat | SInf bool | SText string

fun to_sqlval :: "cell \<Rightarrow> sqlval" where
  "to_sqlval Null = SNull"
| "to_sqlval (Int64 i) = SNum (of_int i)"
| "to_sqlval (Num r) = SNum r"
| "to_sqlval (Infinity b) = SInf b"
| "to_sqlval (Str s) = SText s"
| "to_sqlval (Timestamp t) = SText t"

fun sql_key :: "sqlval \<Rightarrow> nat \<times> rat \<times> string" where
  "sql_key SNull = (0, 0, [])"
| "sql_key (SInf b) = (if b then 3 else 1, 0, [])"
| "sql_key (SNum r) = (2, r, [])"
| "sql_key (SText s) = (4, 0, s)"


type_synonym sqltable = "(string \<times> sqlval list) list"

type_synonym db = "string \<rightharpoonup> sqltable"

text \<open>SQLite compares identifiers without regard to ASCII case.\<close>

definition ascii_lower :: "char \<Rightarrow> char" where
  "ascii_lower c =
     (if CHR ''A'' \<le> c \<and> c \<le> CHR ''Z'' then char_of (of_char c + (32::nat)) else c)"

definition ident :: "string \<Rightarrow> string" where
  "ident s = map ascii_lower s"

text \<open>
  \<open>df.to_sql(name, conn, index=False, if_exists='replace')\<close> yields the table that
  replaces \<open>name\<close>. \<open>CREATE TABLE\<close> fails on a frame without columns and on two columns
  whose names SQLite identifies.
\<close>

definition to_sql :: "frame \<Rightarrow> error + sqltable" where
  "to_sql f =
     (if columns f = [] \<or> \<not> distinct (map (ident \<circ> fst) (columns f))
      then Inl DatabaseError
      else Inr (map (\<lambda>(n, s). (n, map to_sqlval s)) (columns f)))"

definition sql_column :: "sqltable \<Rightarrow> string \<Rightarrow> sqlval list option" where
  "sql_column t name = map_option snd (find (\<lambda>(n, c). ident n = ident name) t)"

section \<open>Grouping with accumulators\<close>

text \<open>
  Both engines aggregate in one pass: every group owns an accumulator, a row updates
  the accumulator of its key, a key seen for the first time opens a group.
\<close>

fun group_step :: "('a \<Rightarrow> 'v \<Rightarrow> 'a) \<Rightarrow> 'a \<Rightarrow> 'k \<Rightarrow> 'v \<Rightarrow> ('k \<times> 'a) list \<Rightarrow> ('k \<times> 'a) list" where
  "group_step step init k v [] = [(k, step init v)]"
| "group_step step init k v ((k', a) # gs) =
     (if k' = k then (k', step a v) # gs else (k', a) # group_step step init k v gs)"

definition group_by :: "('a \<Rightarrow> 'v \<Rightarrow> 'a) \<Rightarrow> 'a \<Rightarrow> ('k \<times> 'v) list \<Rightarrow> ('k \<times> 'a) list" where
  "group_by step init rows = foldl (\<lambda>gs (k, v). group_step step init k v gs) [] rows"

text \<open>
  Both engines compute a mean in \<open>float64\<close>: the values that are not missing are
  summed, and the sum is divided by their number. When every value is an integer and
  the absolute values sum to at most \<open>2^53\<close>, every partial sum is an integer of at most
  that magnitude, so no addition rounds, in whatever order and by whatever scheme the
  engine adds (plainly or with a compensation term); the mean is then the quotient of
  the exact sum by the count, rounded once.
\<close>

definition exact_mean :: "int list \<Rightarrow> rat option" where
  "exact_mean xs =
     (if xs \<noteq> [] \<and> sum_list (map abs xs) \<le> 2 ^ 53
      then Some (round_double (of_int (sum_list xs) / of_nat (length xs)))
      else None)"

text \<open>
  SQLite's \<open>AVG\<close> skips \<open>NULL\<close> and is \<open>NULL\<close> for a group without values. For any other
  group of values (a sum that may round, an infinite value, a text) the result depends
  on the summation scheme of the SQLite release and on the number it reads from a
  text; it is the parameter \<open>sqlite_avg\<close>, applied to the values of the group.
\<close>

fun avg_step :: "sqlval list \<Rightarrow> sqlval \<Rightarrow> sqlval list" where
  "avg_step acc SNull = acc"
| "avg_step acc v = acc @ [v]"

fun sql_integer :: "sqlval \<Rightarrow> int option" where
  "sql_integer (SNum r) = (if of_int \<lfloor>r\<rfloor> = r then Some \<lfloor>r\<rfloor> else None)"
| "sql_integer v = None"

definition avg_final :: "(sqlval list \<Rightarrow> sqlval) \<Rightarrow> sqlval list \<Rightarrow> sqlval" where
  "avg_final sqlite_avg vs =
     (if vs = [] then SNull
      else case Option.bind (those (map sql_integer vs)) exact_mean of
             Some m \<Rightarrow> SNum m
           | None \<Rightarrow> sqlite_avg vs)"

text \<open>
  \<open>SELECT hour, day_type, AVG(total_rentals) FROM rentals GROUP BY hour, day_type
  ORDER BY day_type, hour\<close>, on the rows \<open>(hour, day_type, total_rentals)\<close>.
\<close>

definition temporal_rows ::
  "(sqlval list \<Rightarrow> sqlval) \<Rightarrow> (sqlval \<times> sqlval \<times> sqlval) list \<Rightarrow> (sqlval \<times> sqlval \<times> sqlval) list" where
  "temporal_rows sqlite_avg rows =
     map (\<lambda>((h, d), a). (h, d, avg_final sqlite_avg a))
       (sort_key (\<lambda>((h, d), a). (sql_key d, sql_key h))
          (group_by avg_step [] (map (\<lambda>(h, d, v). ((h, d), v)) rows)))"

definition temporal_query ::
  "(sqlval list \<Rightarrow> sqlval) \<Rightarrow> db \<Rightarrow> error + (sqlval \<times> sqlval \<times> sqlval) list" where
  "temporal_query sqlite_avg conn =
     (case conn ''rentals'' of
        None \<Rightarrow> Inl DatabaseError
      | Some t \<Rightarrow>
          (case (sql_column t ''hour'', sql_column t ''day_type'', sql_column t ''total_rentals'') of
             (Some hs, Some ds, Some vs) \<Rightarrow> Inr (temporal_rows sqlite_avg (zip hs (zip ds vs)))
           | _ \<Rightarrow> Inl DatabaseError))"

section \<open>The pandas aggregation\<close>

text \<open>
  \<open>df.groupby('weather_code')[['casual', 'registered']].mean()\<close>: rows whose key is
  missing are dropped (\<open>dropna=True\<close>), the groups come out in ascending key order
  (\<open>sort=True\<close>; numbers before strings), each mean skips missing values and is
  missing for a group without values. The mean of integers whose absolute values sum to
  at most \<open>2^53\<close> is the rounded quotient \<open>exact_mean\<close>; the mean of any other group
  depends on the summation scheme of the pandas release and is the parameter
  \<open>pandas_mean\<close>, applied to the values of the group in row order. The mean of a
  column that is not numeric raises \<open>TypeError\<close>. \<open>read_csv\<close> gives the columns of a
  file distinct labels and no rename yields \<open>casual\<close> or \<open>registered\<close>, so each of them
  labels at most one column of a frame the program builds.
\<close>

fun cell_key :: "cell \<Rightarrow> nat \<times> rat \<times> string" where
  "cell_key Null = (0, 0, [])"
| "cell_key (Infinity b) = (if b then 4 else 1, 0, [])"
| "cell_key (Int64 i) = (2, of_int i, [])"
| "cell_key (Num r) = (3, r, [])"
| "cell_key (Str s) = (5, 0, s)"
| "cell_key (Timestamp t) = (6, 0, t)"

fun is_numeric :: "cell \<Rightarrow> bool" where
  "is_numeric (Str s) = False"
| "is_numeric (Timestamp t) = False"
| "is_numeric c = True"

fun mean_step :: "cell list \<Rightarrow> cell \<Rightarrow> cell list" where
  "mean_step acc Null = acc"
| "mean_step acc c = acc @ [c]"

fun cell_integer :: "cell \<Rightarrow> int option" where
  "cell_integer (Int64 i) = Some i"
| "cell_integer (Num r) = (if of_int \<lfloor>r\<rfloor> = r then Some \<lfloor>r\<rfloor> else None)"
| "cell_integer c = None"

definition mean_final :: "(cell list \<Rightarrow> cell) \<Rightarrow> cell list \<Rightarrow> cell" where
  "mean_final pandas_mean cs =
     (if cs = [] then Null
      else case Option.bind (those (map cell_integer cs)) exact_mean of
             Some m \<Rightarrow> Num m
           | None \<Rightarrow> pandas_mean cs)"

definition weather_rows ::
  "(cell list \<Rightarrow> cell) \<Rightarrow> (cell \<times> cell \<times> cell) list \<Rightarrow> (cell \<times> cell \<times> cell) list" where
  "weather_rows pandas_mean rows =
     map (\<lambda>(k, (ca, ra)). (k, mean_final pandas_mean ca, mean_final pandas_mean ra))
       (sort_key (\<lambda>(k, a). cell_key k)
          (group_by (\<lambda>(ca, ra) (c, r). (mean_step ca c, mean_step ra r)) ([], [])
             (filter (\<lambda>(k, v). k \<noteq> Null) rows)))"

definition weather_avg ::
  "(cell list \<Rightarrow> cell) \<Rightarrow> frame \<Rightarrow> error + (cell \<times> cell \<times> cell) list" where
  "weather_avg pandas_mean f =
     (case getitem f ''weather_code'' of
        Inl e \<Rightarrow> Inl e
      | Inr ks \<Rightarrow>
          (case getitem f ''casual'' of
             Inl e \<Rightarrow> Inl e
           | Inr cs \<Rightarrow>
               (case getitem f ''registered'' of
                  Inl e \<Rightarrow> Inl e
                | Inr rs \<Rightarrow>
                    if list_all is_numeric cs \<and> list_all is_numeric rs
                    then Inr (weather_rows pandas_mean (zip ks (zip cs rs)))
                    else Inl TypeError)))"

text \<open>
  \<open>SELECT "Start Station", COUNT(*) as departures FROM raw_trips GROUP BY
  "Start Station" ORDER BY departures DESC LIMIT 5\<close>, on the station column. SQL leaves
  the order among equal counts open. SQLite forms the groups in the direction of the
  \<open>ORDER BY\<close> term, here by descending station, and its sort keeps rows of equal
  count in the order in which they arrive: equal counts come by descending station.
\<close>

definition station_rows :: "sqlval list \<Rightarrow> (sqlval \<times> nat) list" where
  "station_rows stations =
     take 5 (sort_key (\<lambda>(k, c). - int c)
       (rev (sort_key (\<lambda>(k, c). sql_key k)
          (group_by (\<lambda>c u. Suc c) 0 (map (\<lambda>s. (s, ())) stations)))))"

definition table_rows :: "sqltable \<Rightarrow> nat" where
  "table_rows t = (case t of [] \<Rightarrow> 0 | (n, c) # cs \<Rightarrow> length c)"

text \<open>
  When the table has no column \<open>Start Station\<close>, the double-quoted name is a string
  literal for an SQLite built with its default \<open>SQLITE_DQS\<close> setting (\<open>dqs\<close>), and an
  unknown column otherwise.
\<close>

definition spatial_query :: "bool \<Rightarrow> db \<Rightarrow> error + (sqlval \<times> nat) list" where
  "spatial_query dqs conn =
     (case conn ''raw_trips'' of
        None \<Rightarrow> Inl DatabaseError
      | Some t \<Rightarrow>
          (case sql_column t ''Start Station'' of
             Some ss \<Rightarrow> Inr (station_rows ss)
           | None \<Rightarrow>
               if dqs then Inr (station_rows (replicate (table_rows t) (SText ''Start Station'')))
               else Inl DatabaseError))"

section \<open>Files and standard output\<close>

text \<open>
  A chart is identified with the table it draws; drawing itself is matplotlib's and is
  taken to succeed. A path names a CSV file (with the frame \<open>read_csv\<close> parses from it),
  an image, a directory, or something that exists and cannot be read or written.
\<close>

datatype chart =
    LineChart "(sqlval \<times> sqlval \<times> sqlval) list"
  | StackedBar "(cell \<times> cell \<times> cell) list"

datatype node = CsvFile frame | ImageFile chart | Directory | Unreadable

datatype out = Line string | Table "(sqlval \<times> nat) list"

record world =
  files :: "string \<rightharpoonup> node"
  stdout :: "out list"

definition print :: "string \<Rightarrow> world \<Rightarrow> world" where
  "print s w = w\<lparr>stdout := stdout w @ [Line s]\<rparr>"

definition print_table :: "(sqlval \<times> nat) list \<Rightarrow> world \<Rightarrow> world" where
  "print_table t w = w\<lparr>stdout := stdout w @ [Table t]\<rparr>"

definition os_path_exists :: "world \<Rightarrow> string \<Rightarrow> bool" where
  "os_path_exists w p = (p \<noteq> [] \<and> files w p \<noteq> None)"

definition os_makedirs :: "string \<Rightarrow> world \<Rightarrow> world" where
  "os_makedirs p w = w\<lparr>files := (files w)(p \<mapsto> Directory)\<rparr>"

definition read_csv :: "world \<Rightarrow> string \<Rightarrow> error + frame" where
  "read_csv w p =
     (case files w p of
        None \<Rightarrow> Inl (FileNotFoundError p)
      | Some (CsvFile f) \<Rightarrow> Inr f
      | Some (ImageFile c) \<Rightarrow> Inl ValueError
      | Some Directory \<Rightarrow> Inl OSError
      | Some Unreadable \<Rightarrow> Inl OSError)"

definition dirname :: "string \<Rightarrow> string" where
  "dirname p =
     (if CHR ''/'' \<in> set p then rev (tl (dropWhile (\<lambda>c. c \<noteq> CHR ''/'') (rev p))) else [])"

text \<open>
  \<open>plt.savefig(p)\<close> takes the image format from the extension of \<open>p\<close>, which is what
  follows the last dot of the last component of the path, dots that begin the
  component apart. Without an extension the format is PNG and \<open>.png\<close> is appended to
  the path (less its trailing dots); an extension that is no format of the backend
  raises \<open>ValueError\<close>. The image is created or overwritten; that raises when the target
  is a directory or cannot be written, or when its directory is not there.
\<close>

definition splitext :: "string \<Rightarrow> string" where
  "splitext p =
     (let b = dropWhile (\<lambda>c. c = CHR ''.'') (rev (takeWhile (\<lambda>c. c \<noteq> CHR ''/'') (rev p)))
      in if CHR ''.'' \<in> set b then rev (takeWhile (\<lambda>c. c \<noteq> CHR ''.'') (rev b)) else [])"

definition image_formats :: "string list" where
  "image_formats =
     [''eps'', ''jpeg'', ''jpg'', ''pdf'', ''pgf'', ''png'', ''ps'', ''raw'', ''rgba'', ''svg'',
      ''svgz'', ''tif'', ''tiff'', ''webp'']"

definition savefig_target :: "string \<Rightarrow> string" where
  "savefig_target p =
     (if splitext p = [] then rev (dropWhile (\<lambda>c. c = CHR ''.'') (rev p)) @ ''.png'' else p)"

definition savefig :: "string \<Rightarrow> chart \<Rightarrow> world \<Rightarrow> error + world" where
  "savefig p c w =
     (let q = savefig_target p in
      if splitext p \<noteq> [] \<and> map ascii_lower (splitext p) \<notin> set image_formats
      then Inl ValueError
      else if files w q = Some Directory \<or> files w q = Some Unreadable then Inl OSError
      else if dirname q \<noteq> [] \<and> files w (dirname q) = None then Inl (FileNotFoundError q)
      else if dirname q \<noteq> [] \<and> files w (dirname q) \<noteq> Some Directory then Inl OSError
      else Inr (w\<lparr>files := (files w)(q \<mapsto> ImageFile c)\<rparr>))"

section \<open>src/data\_loader.py, src/analysis.py and main.py\<close>

record loader =
  l_hourly_path :: string
  l_daily_path :: string
  l_df :: "frame option"

text \<open>\<open>BikeDataLoader.__init__\<close>.\<close>

definition BikeDataLoader :: "string \<Rightarrow> string \<Rightarrow> loader" where
  "BikeDataLoader hourly_path daily_path =
     \<lparr>l_hourly_path = hourly_path, l_daily_path = daily_path, l_df = None\<rparr>"

text \<open>
  \<open>BikeDataLoader.load_and_clean\<close>: the result (the exception or the returned frame),
  the loader object and the world afterwards.
\<close>

definition load_and_clean ::
  "(cell \<Rightarrow> cell option) \<Rightarrow> loader \<Rightarrow> world \<Rightarrow> (error + frame) \<times> loader \<times> world" where
  "load_and_clean to_datetime self w =
     (if \<not> os_path_exists w (l_hourly_path self)
      then (Inl (FileNotFoundError (l_hourly_path self)), self, w)
      else
        let w1 = print (''Loading data from '' @ l_hourly_path self @ ''...'') w in
        case read_csv w1 (l_hourly_path self) of
          Inl e \<Rightarrow> (Inl e, self, w1)
        | Inr raw \<Rightarrow>
            (case run_steps (loader_steps to_datetime) raw of
               (Some e, f) \<Rightarrow> (Inl e, self\<lparr>l_df := Some f\<rparr>, w1)
             | (None, f) \<Rightarrow> (Inr f, self\<lparr>l_df := Some f\<rparr>, w1)))"

record analyzer =
  a_df :: frame
  a_conn :: db

text \<open>\<open>BikeAnalyzer.__init__\<close> with \<open>_setup_db\<close>.\<close>

definition BikeAnalyzer :: "frame \<Rightarrow> error + analyzer" where
  "BikeAnalyzer dataframe =
     (case to_sql dataframe of
        Inl e \<Rightarrow> Inl e
      | Inr t \<Rightarrow> Inr \<lparr>a_df = dataframe, a_conn = [''rentals'' \<mapsto> t]\<rparr>)"

definition plot_temporal_trends ::
  "(sqlval list \<Rightarrow> sqlval) \<Rightarrow> analyzer \<Rightarrow> string \<Rightarrow> world \<Rightarrow> (error + unit) \<times> world" where
  "plot_temporal_trends sqlite_avg self output_path w =
     (case temporal_query sqlite_avg (a_conn self) of
        Inl e \<Rightarrow> (Inl e, w)
      | Inr data \<Rightarrow>
          (case savefig output_path (LineChart data) w of
             Inl e \<Rightarrow> (Inl e, w)
           | Inr w1 \<Rightarrow> (Inr (), print (''Saved temporal analysis to '' @ output_path) w1)))"

definition plot_user_segmentation ::
  "(cell list \<Rightarrow> cell) \<Rightarrow> analyzer \<Rightarrow> string \<Rightarrow> world \<Rightarrow> (error + unit) \<times> world" where
  "plot_user_segmentation pandas_mean self output_path w =
     (case weather_avg pandas_mean (a_df self) of
        Inl e \<Rightarrow> (Inl e, w)
      | Inr weather \<Rightarrow>
          (case savefig output_path (StackedBar weather) w of
             Inl e \<Rightarrow> (Inl e, w)
           | Inr w1 \<Rightarrow> (Inr (), print (''Saved user analysis to '' @ output_path) w1)))"

definition main ::
  "(cell \<Rightarrow> cell option) \<Rightarrow> (sqlval list \<Rightarrow> sqlval) \<Rightarrow> (cell list \<Rightarrow> cell) \<Rightarrow> world
     \<Rightarrow> (error + unit) \<times> world" where
  "main to_datetime sqlite_avg pandas_mean w =
     (let w0 = (if \<not> os_path_exists w ''output'' then os_makedirs ''output'' w else w);
          ld = BikeDataLoader ''data/hour.csv'' ''data/day.csv''
      in
        case load_and_clean to_datetime ld w0 of
          (Inl e, ld1, w1) \<Rightarrow> (Inl e, w1)
        | (Inr clean_df, ld1, w1) \<Rightarrow>
            (case BikeAnalyzer clean_df of
               Inl e \<Rightarrow> (Inl e, w1)
             | Inr an \<Rightarrow>
                 (case plot_temporal_trends sqlite_avg an ''output/temporal_analysis.png''
                         (print ''--- Starting Analysis ---'' w1) of
                    (Inl e, w2) \<Rightarrow> (Inl e, w2)
                  | (Inr u, w2) \<Rightarrow>
                      (case plot_user_segmentation pandas_mean an ''output/user_analysis.png'' w2 of
                         (Inl e, w3) \<Rightarrow> (Inl e, w3)
                       | (Inr u', w3) \<Rightarrow>
                           (Inr (), print ''--- Analysis Complete. Check 'output' folder. ---'' w3)))))"

section \<open>thesis\_analysis.py\<close>

text \<open>
  The methods of \<open>BikeDataPipeline\<close>, each as its body reads. The plotting statement of
  \<open>run_weather_impact_study\<close>, \<open>weather_avg.plot(kind='bar', stacked=True, color=)\<close>, is
  not a Python expression and has no embedding; of that method only the aggregation
  statement before it is modelled.
\<close>

record pipeline =
  p_hourly_path :: string
  p_daily_path :: string
  p_trips_path :: "string option"
  p_conn :: db
  p_df :: "frame option"

text \<open>\<open>BikeDataPipeline.__init__\<close>: a fresh in-memory database and no frame.\<close>

definition BikeDataPipeline :: "string \<Rightarrow> string \<Rightarrow> string option \<Rightarrow> pipeline" where
  "BikeDataPipeline hourly_path daily_path trips_path =
     \<lparr>p_hourly_path = hourly_path, p_daily_path = daily_path, p_trips_path = trips_path,
      p_conn = Map.empty, p_df = None\<rparr>"

definition process_data :: "pipeline \<Rightarrow> world \<Rightarrow> (error + unit) \<times> pipeline \<times> world" where
  "process_data self w =
     (if \<not> os_path_exists w (p_hourly_path self)
      then (Inr (), self, print (''[!] Critical: '' @ p_hourly_path self @ '' not found.'') w)
      else
        let w1 = print (''Loading data from '' @ p_hourly_path self @ ''...'') w in
        case read_csv w1 (p_hourly_path self) of
          Inl e \<Rightarrow> (Inl e, self, w1)
        | Inr raw \<Rightarrow>
            (case run_steps pipeline_steps raw of
               (Some e, f) \<Rightarrow> (Inl e, self\<lparr>p_df := Some f\<rparr>, w1)
             | (None, f) \<Rightarrow>
                 (case to_sql f of
                    Inl e \<Rightarrow> (Inl e, self\<lparr>p_df := Some f\<rparr>, w1)
                  | Inr t \<Rightarrow>
                      (Inr (),
                       self\<lparr>p_df := Some f, p_conn := (p_conn self)(''rentals'' \<mapsto> t)\<rparr>,
                       print ''Data successfully loaded into SQL environment.'' w1))))"

definition run_temporal_analysis ::
  "(sqlval list \<Rightarrow> sqlval) \<Rightarrow> pipeline \<Rightarrow> world \<Rightarrow> (error + unit) \<times> world" where
  "run_temporal_analysis sqlite_avg self w =
     (let w1 = print (CHR 0x0A # ''--- Performing Temporal SQL Analysis ---'') w in
      case temporal_query sqlite_avg (p_conn self) of
        Inl e \<Rightarrow> (Inl e, w1)
      | Inr results \<Rightarrow>
          (case savefig ''viz_temporal_patterns.png'' (LineChart results) w1 of
             Inl e \<Rightarrow> (Inl e, w1)
           | Inr w2 \<Rightarrow> (Inr (), print ''>> Saved chart: viz_temporal_patterns.png'' w2)))"

text \<open>The aggregation statement of \<open>run_weather_impact_study\<close>, on \<open>self.df\<close>.\<close>

definition study_weather_avg ::
  "(cell list \<Rightarrow> cell) \<Rightarrow> pipeline \<Rightarrow> error + (cell \<times> cell \<times> cell) list" where
  "study_weather_avg pandas_mean self =
     (case p_df self of None \<Rightarrow> Inl AttributeError | Some f \<Rightarrow> weather_avg pandas_mean f)"

definition run_spatial_analysis ::
  "bool \<Rightarrow> pipeline \<Rightarrow> world \<Rightarrow> (error + unit) \<times> pipeline \<times> world" where
  "run_spatial_analysis dqs self w =
     (let w1 = print (CHR 0x0A # ''--- Checking for Spatial Data ---'') w in
      case p_trips_path self of
        None \<Rightarrow>
          (Inr (), self,
           print ''Note: The standard UCI dataset is aggregated and lacks station coordinates.''
             (print ''[Info] 'trips.csv' not found. Skipping spatial module.'' w1))
      | Some tp \<Rightarrow>
          if os_path_exists w1 tp then
            (let w2 = print ''Loading raw trip logs for spatial analysis...'' w1 in
             case read_csv w2 tp of
               Inl e \<Rightarrow> (Inl e, self, w2)
             | Inr trips \<Rightarrow>
                 (case to_sql trips of
                    Inl e \<Rightarrow> (Inl e, self, w2)
                  | Inr t \<Rightarrow>
                      (let self1 = self\<lparr>p_conn := (p_conn self)(''raw_trips'' \<mapsto> t)\<rparr> in
                       case spatial_query dqs (p_conn self1) of
                         Inl e \<Rightarrow> (Inl e, self1, w2)
                       | Inr stations \<Rightarrow> (Inr (), self1, print_table stations w2))))
          else
            (Inr (), self,
             print ''Note: The standard UCI dataset is aggregated and lacks station coordinates.''
               (print ''[Info] 'trips.csv' not found. Skipping spatial module.'' w1)))"

section \<open>The rename map of the specification\<close>

text \<open>
  The nine renames as the specification lists them: \<open>dteday\<close> to \<open>date\<close>, \<open>yr\<close> to
  \<open>year\<close>, \<open>mnth\<close> to \<open>month\<close>, \<open>hr\<close> to \<open>hour\<close>, \<open>weathersit\<close> to \<open>weather_code\<close>,
  \<open>cnt\<close> to \<open>total_rentals\<close>, \<open>hum\<close> to \<open>humidity_norm\<close>, \<open>atemp\<close> to
  \<open>feel_temp_norm\<close>, \<open>workingday\<close> to \<open>is_working_day\<close>; every other name stays.
\<close>

definition spec_rename :: "string \<Rightarrow> string" where
  "spec_rename n =
     (if n = ''dteday'' then ''date'' else if n = ''yr'' then ''year''
      else if n = ''mnth'' then ''month'' else if n = ''hr'' then ''hour''
      else if n = ''weathersit'' then ''weather_code'' else if n = ''cnt'' then ''total_rentals''
      else if n = ''hum'' then ''humidity_norm'' else if n = ''atemp'' then ''feel_temp_norm''
      else if n = ''workingday'' then ''is_working_day'' else n)"

section \<open>Derived columns\<close>

text \<open>
  How far the \<open>float64\<close> nearest to \<open>q\<close> can be from \<open>q\<close>: the relative error of
  rounding is at most \<open>2^-53\<close>, and among the subnormal numbers the error is at most
  \<open>2^-1075\<close>.
\<close>

definition rounding_error :: "rat \<Rightarrow> rat" where
  "rounding_error q = max (\<bar>q\<bar> / 2 ^ 53) (1 / 2 ^ 1075)"

text \<open>
  \<open>scaled_by k src dst\<close>: row by row, \<open>dst\<close> is \<open>src\<close> times \<open>k\<close> in the arithmetic of
  the column. For an \<open>int64\<close> value that is the product modulo \<open>2^64\<close>, which is the
  product itself when it lies between \<open>-2^63\<close> and \<open>2^63\<close>; for a finite \<open>float64\<close>
  value it is the product rounded to the nearest \<open>float64\<close>, which when finite is
  within the rounding error of the product; an infinite value stays infinite and a
  missing value stays missing. \<open>derived_from out target k source\<close>: the frame has
  the column \<open>source\<close> and a column \<open>target\<close>, and every column \<open>target\<close> is \<open>source\<close>
  scaled by \<open>k\<close>.
\<close>

definition scaled_by :: "nat \<Rightarrow> series \<Rightarrow> series \<Rightarrow> bool" where
  "scaled_by k src dst =
     list_all2
       (\<lambda>x y. py_mul x k = Inr y \<and>
          (case x of
             Null \<Rightarrow> y = Null
           | Int64 i \<Rightarrow>
               y = Int64 (wrap64 (i * int k)) \<and>
               (- (2 ^ 63) \<le> i * int k \<and> i * int k < 2 ^ 63 \<longrightarrow> y = Int64 (i * int k))
           | Num r \<Rightarrow>
               y = to_double (r * of_nat k) \<and>
               (case y of
                  Num z \<Rightarrow> \<bar>z - r * of_nat k\<bar> \<le> rounding_error (r * of_nat k)
                | _ \<Rightarrow> True)
           | Infinity b \<Rightarrow> 0 < k \<longrightarrow> y = Infinity b
           | _ \<Rightarrow> True))
       src dst"

definition derived_from :: "frame \<Rightarrow> string \<Rightarrow> nat \<Rightarrow> string \<Rightarrow> bool" where
  "derived_from out target k source =
     (case getitem out source of
        Inl e \<Rightarrow> False
      | Inr src \<Rightarrow>
          target \<in> set (labels out) \<and>
          list_all (\<lambda>(n, s). n = target \<longrightarrow> scaled_by k src s) (columns out))"

section \<open>Groups, means and orders as the specification words them\<close>

text \<open>The values of the rows of one key, in row order.\<close>

definition group_values :: "'k \<Rightarrow> ('k \<times> 'v) list \<Rightarrow> 'v list" where
  "group_values k rows = map snd (filter (\<lambda>(k', v). k' = k) rows)"

text \<open>
  The mean in \<open>float64\<close> of numbers that are integers whose absolute values sum to at
  most \<open>2^53\<close>: the \<open>float64\<close> nearest to their arithmetic mean.
\<close>

definition small_integers :: "rat list \<Rightarrow> bool" where
  "small_integers rs = (list_all (\<lambda>r. of_int \<lfloor>r\<rfloor> = r) rs \<and> sum_list (map abs rs) \<le> 2 ^ 53)"

definition arithmetic_mean :: "rat list \<Rightarrow> rat" where
  "arithmetic_mean rs = sum_list rs / of_nat (length rs)"

definition rounded_mean :: "rat list \<Rightarrow> rat" where
  "rounded_mean rs = round_double (arithmetic_mean rs)"




fun cell_number :: "cell \<Rightarrow> rat option" where
  "cell_number (Int64 i) = Some (of_int i)"
| "cell_number (Num r) = Some r"
| "cell_number c = None"

definition cell_mean :: "(cell list \<Rightarrow> cell) \<Rightarrow> cell list \<Rightarrow> cell" where
  "cell_mean pandas_mean cs =
     (let present = filter (\<lambda>c. c \<noteq> Null) cs in
      if present = [] then Null
      else case those (map cell_number present) of
             Some rs \<Rightarrow> if small_integers rs then Num (rounded_mean rs) else pandas_mean present
           | None \<Rightarrow> pandas_mean present)"


section \<open>A sample data set\<close>

text \<open>
  Four hourly records: three of hour 8 on working days with 10, 20 and 30 rentals, two
  of them under weather code 1 with 5 and 15 casual and 10 and 20 registered users, and
  one record whose hour and weather code are missing. The columns with a missing value
  are \<open>float64\<close>, the counts and the flag are \<open>int64\<close>. The first temperature is the
  \<open>float64\<close> that \<open>read_csv\<close> parses from \<open>0.24\<close> and the second wind speed the one it
  parses from \<open>0.2537\<close>; their products with 41 and 67 round.
\<close>

definition example_hourly :: frame where
  "example_hourly =
     \<lparr>nrows = 4,
      columns =
        [(''dteday'', [Str ''2011-01-03'', Str ''2011-01-04'', Str ''2011-01-05'', Str ''2011-01-08'']),
         (''hr'', [Num 8, Num 8, Num 8, Null]),
         (''weathersit'', [Num 1, Num 1, Num 2, Null]),
         (''temp'', [Num (1080863910568919 / 4503599627370496), Num (1 / 2), Num 1, Null]),
         (''hum'', [Num (3 / 4), Num (1 / 2), Null, Num 1]),
         (''windspeed'', [Num 0, Num (4570252901855579 / 18014398509481984), Num (1 / 2), Num 1]),
         (''workingday'', [Int64 1, Int64 1, Int64 1, Int64 0]),
         (''casual'', [Int64 5, Int64 15, Int64 7, Int64 1]),
         (''registered'', [Int64 10, Int64 20, Int64 23, Int64 3]),
         (''cnt'', [Int64 10, Int64 20, Int64 30, Int64 4])]\<rparr>"

definition example_clean :: frame where
  "example_clean =
     \<lparr>nrows = 4,
      columns =
        [(''date'', [Timestamp ''2011-01-03'', Timestamp ''2011-01-04'', Timestamp ''2011-01-05'',
                    Timestamp ''2011-01-08'']),
         (''hour'', [Num 8, Num 8, Num 8, Null]),
         (''weather_code'', [Num 1, Num 1, Num 2, Null]),
         (''temp'', [Num (1080863910568919 / 4503599627370496), Num (1 / 2), Num 1, Null]),
         (''humidity_norm'', [Num (3 / 4), Num (1 / 2), Null, Num 1]),
         (''windspeed'', [Num 0, Num (4570252901855579 / 18014398509481984), Num (1 / 2), Num 1]),
         (''is_working_day'', [Int64 1, Int64 1, Int64 1, Int64 0]),
         (''casual'', [Int64 5, Int64 15, Int64 7, Int64 1]),
         (''registered'', [Int64 10, Int64 20, Int64 23, Int64 3]),
         (''total_rentals'', [Int64 10, Int64 20, Int64 30, Int64 4]),
         (''temp_c'', [Num (2769713770832855 / 281474976710656), Num (41 / 2), Num 41, Null]),
         (''humidity_real'', [Num 75, Num 50, Null, Num 100]),
         (''wind_speed_real'', [Num 0, Num (4784483506630059 / 281474976710656), Num (67 / 2), Num 67]),
         (''day_type'', [Str ''Working Day'', Str ''Working Day'', Str ''Working Day'',
                        Str ''Weekend/Holiday''])]\<rparr>"

text \<open>What \<open>process_data\<close> makes of the same records: no date conversion, and the
  working-day flag keeps its name.\<close>

definition example_processed :: frame where
  "example_processed =
     \<lparr>nrows = 4,
      columns =
        [(''date'', [Str ''2011-01-03'', Str ''2011-01-04'', Str ''2011-01-05'', Str ''2011-01-08'']),
         (''hour'', [Num 8, Num 8, Num 8, Null]),
         (''weather_code'', [Num 1, Num 1, Num 2, Null]),
         (''temp'', [Num (1080863910568919 / 4503599627370496), Num (1 / 2), Num 1, Null]),
         (''humidity_norm'', [Num (3 / 4), Num (1 / 2), Null, Num 1]),
         (''windspeed'', [Num 0, Num (4570252901855579 / 18014398509481984), Num (1 / 2), Num 1]),
         (''workingday'', [Int64 1, Int64 1, Int64 1, Int64 0]),
         (''casual'', [Int64 5, Int64 15, Int64 7, Int64 1]),
         (''registered'', [Int64 10, Int64 20, Int64 23, Int64 3]),
         (''total_rentals'', [Int64 10, Int64 20, Int64 30, Int64 4]),
         (''temp_c'', [Num (2769713770832855 / 281474976710656), Num (41 / 2), Num 41, Null]),
         (''humidity_real'', [Num 75, Num 50, Null, Num 100]),
         (''wind_speed_real'', [Num 0, Num (4784483506630059 / 281474976710656), Num (67 / 2), Num 67]),
         (''day_type'', [Str ''Working Day'', Str ''Working Day'', Str ''Working Day'',
                        Str ''Weekend/Holiday''])]\<rparr>"

definition example_trips :: frame where
  "example_trips =
     \<lparr>nrows = 9,
      columns =
        [(''Start Station'',
          [Str ''A'', Str ''B'', Str ''A'', Str ''C'', Str ''A'', Str ''B'', Str ''D'', Str ''E'',
           Str ''F''])]\<rparr>"

text \<open>The table \<open>rentals\<close> that \<open>to_sql\<close> makes of the cleaned sample.\<close>

definition example_rentals :: sqltable where
  "example_rentals = map (\<lambda>(n, s). (n, map to_sqlval s)) (columns example_clean)"

text \<open>A date parser for the sample: any string is a date, a missing value stays missing.\<close>

fun example_to_datetime :: "cell \<Rightarrow> cell option" where
  "example_to_datetime (Str s) = Some (Timestamp s)"
| "example_to_datetime Null = Some Null"
| "example_to_datetime c = None"

text \<open>
  The groups of the samples are groups of small integers, whose means do not depend on
  the release of the engine; these stand for the engines' means of other groups.
\<close>

definition sample_avg :: "sqlval list \<Rightarrow> sqlval" where
  "sample_avg vs = SNull"

definition sample_mean :: "cell list \<Rightarrow> cell" where
  "sample_mean cs = Null"

definition example_world :: world where
  "example_world =
     \<lparr>files = [''data/hour.csv'' \<mapsto> CsvFile example_hourly,
               ''hour.csv'' \<mapsto> CsvFile example_hourly,
               ''trips.csv'' \<mapsto> CsvFile example_trips],
      stdout = []\<rparr>"

text \<open>The same directory without the data files, and with a trip log that cannot be read.\<close>

definition empty_world :: world where
  "empty_world = \<lparr>files = Map.empty, stdout = []\<rparr>"

definition locked_world :: world where
  "locked_world = \<lparr>files = [''trips.csv'' \<mapsto> Unreadable], stdout = []\<rparr>"

text \<open>
  One record whose temperature column holds the integer 300000000000000000, so that
  \<open>read_csv\<close> makes the column \<open>int64\<close>, and the frame that \<open>load_and_clean\<close> makes of it.
\<close>

definition example_wide :: frame where
  "example_wide =
     \<lparr>nrows = 1,
      columns =
        [(''dteday'', [Str ''2011-01-03'']),
         (''temp'', [Int64 300000000000000000]),
         (''hum'', [Num (1 / 2)]),
         (''windspeed'', [Num 0]),
         (''workingday'', [Int64 1])]\<rparr>"

definition wide_clean :: frame where
  "wide_clean =
     \<lparr>nrows = 1,
      columns =
        [(''date'', [Timestamp ''2011-01-03'']),
         (''temp'', [Int64 300000000000000000]),
         (''humidity_norm'', [Num (1 / 2)]),
         (''windspeed'', [Num 0]),
         (''is_working_day'', [Int64 1]),
         (''temp_c'', [Int64 (- 6146744073709551616)]),
         (''humidity_real'', [Num 50]),
         (''wind_speed_real'', [Num 0]),
         (''day_type'', [Str ''Working Day''])]\<rparr>"

definition wide_world :: world where
  "wide_world = \<lparr>files = [''data/hour.csv'' \<mapsto> CsvFile example_wide], stdout = []\<rparr>"



section \<open>Rounding to \<open>float64\<close>\<close>

text \<open>
  The exponent that \<open>floor_log2\<close> computes is not above the binary exponent, rounding
  to an integer moves by at most a half, and so rounding to \<open>float64\<close> stays within
  \<open>rounding_error\<close>; an integer of magnitude at most \<open>2^53\<close> is a \<open>float64\<close>.
\<close>

lemma pow2_powi: "pow2 e = 2 powi e"
  by (simp add: pow2_def power_int_def power_inverse inverse_eq_divide power_one_over)

lemma pow2_pos: "0 < pow2 e"
  by (simp add: pow2_def)

lemma pow2_add: "pow2 (a + b) = pow2 a * pow2 b"
  by (simp add: pow2_powi power_int_add)

lemma pow2_nat: "pow2 (int n) = 2 ^ n"
  by (simp add: pow2_def)

lemma floor_log2_le:
  assumes "0 < q"
  shows "pow2 (floor_log2 q) \<le> q"
proof -
  obtain a b where ab: "quotient_of q = (a, b)" by (cases "quotient_of q")
  have b: "0 < b" using quotient_of_denom_pos [OF ab] .
  have q: "q = of_int a / of_int b" using quotient_of_div [OF ab] .
  have a: "0 < a" using assms b by (simp add: q zero_less_divide_iff)
  define e where "e = bitlen a - bitlen b"
  have la: "(2::int) ^ nat (bitlen a - 1) \<le> a" using bitlen_bounds [OF a] by simp
  have lb: "b < (2::int) ^ nat (bitlen b)" using bitlen_bounds [OF b] by simp
  have ba: "1 \<le> bitlen a" using a by (simp add: bitlen_ge_iff_power)
  have bb: "0 \<le> bitlen b" by (rule bitlen_nonneg)
  have "pow2 (bitlen a - 1) \<le> of_int a"
  proof -
    have "(of_int ((2::int) ^ nat (bitlen a - 1)) :: rat) \<le> of_int a"
      using la by (simp only: of_int_le_iff)
    then show ?thesis using ba by (simp add: pow2_def)
  qed
  moreover have "(of_int b :: rat) \<le> pow2 (bitlen b)"
  proof -
    have "(of_int b :: rat) \<le> of_int ((2::int) ^ nat (bitlen b))"
      using lb by (simp only: of_int_le_iff order_less_imp_le)
    then show ?thesis using bb by (simp add: pow2_def)
  qed
  ultimately have "pow2 (bitlen a - 1) / pow2 (bitlen b) \<le> of_int a / of_int b"
    using b pow2_pos [of "bitlen a - 1"] pow2_pos [of "bitlen b"]
    by (intro frac_le) simp_all
  moreover have "pow2 (bitlen a - 1) / pow2 (bitlen b) = pow2 (e - 1)"
    using pow2_add [of "e - 1" "bitlen b"] pow2_pos [of "bitlen b"]
    by (simp add: e_def field_simps)
  ultimately have low: "pow2 (e - 1) \<le> q" by (simp add: q)
  show ?thesis
    using low by (simp add: floor_log2_def ab e_def [symmetric] Let_def)
qed

lemma round_half_even_near: "\<bar>of_int (round_half_even x) - x\<bar> \<le> 1 / 2"
proof -
  have f: "of_int \<lfloor>x\<rfloor> \<le> x" "x < of_int \<lfloor>x\<rfloor> + 1" by linarith+
  consider "x - of_int \<lfloor>x\<rfloor> < 1 / 2" | "1 / 2 < x - of_int \<lfloor>x\<rfloor>"
    | "x - of_int \<lfloor>x\<rfloor> = 1 / 2"
    by linarith
  then show ?thesis
  proof cases
    case 1
    then show ?thesis using f by (simp add: round_half_even_def Let_def)
  next
    case 2
    then show ?thesis using f by (simp add: round_half_even_def Let_def)
  next
    case 3
    then show ?thesis using f by (simp add: round_half_even_def Let_def)
  qed
qed


lemma round_double_error:
  "\<bar>round_double q - q\<bar> \<le> max (\<bar>q\<bar> / 2 ^ 53) (1 / 2 ^ 1075)"
proof (cases "q = 0")
  case True
  then show ?thesis by (simp add: round_double_def)
next
  case False
  define e where "e = floor_log2 \<bar>q\<bar>"
  define p where "p = max (e - 52) (- 1074)"
  define P where "P = pow2 p"
  have P: "0 < P" unfolding P_def by (rule pow2_pos)
  have rd: "round_double q = of_int (round_half_even (q / P)) * P"
    using False by (simp add: round_double_def Let_def e_def p_def P_def)
  have "round_double q - q = (of_int (round_half_even (q / P)) - q / P) * P"
    using P by (simp add: rd field_simps)
  then have "\<bar>round_double q - q\<bar> = \<bar>of_int (round_half_even (q / P)) - q / P\<bar> * P"
    using P by (simp add: abs_mult)
  also have "\<dots> \<le> 1 / 2 * P"
    using round_half_even_near [of "q / P"] P by (intro mult_right_mono) simp_all
  finally have half: "\<bar>round_double q - q\<bar> \<le> P / 2" by simp
  have low: "pow2 e \<le> \<bar>q\<bar>"
    unfolding e_def using False by (intro floor_log2_le) simp
  show ?thesis
  proof (cases "- 1074 \<le> e - 52")
    case True
    then have "p = e + (- 52)" by (simp add: p_def)
    then have "P = pow2 e * pow2 (- 52)"
      unfolding P_def by (simp only: pow2_add)
    then have "P / 2 = pow2 e / 2 ^ 53" by (simp add: pow2_def)
    then have "P / 2 \<le> \<bar>q\<bar> / 2 ^ 53" using low by (simp add: divide_right_mono)
    with half have "\<bar>round_double q - q\<bar> \<le> \<bar>q\<bar> / 2 ^ 53" by (rule order_trans)
    then show ?thesis by (rule max.coboundedI1)
  next
    case False
    then have "P = pow2 (- 1074)" by (simp add: P_def p_def max_def)
    then have "P / 2 = 1 / 2 ^ 1075" by (simp add: pow2_def)
    with half have "\<bar>round_double q - q\<bar> \<le> 1 / 2 ^ 1075" by (simp only:)
    then show ?thesis by (rule max.coboundedI2)
  qed
qed



lemma round_double_near: "\<bar>round_double q - q\<bar> \<le> rounding_error q"
  unfolding rounding_error_def by (rule round_double_error)

lemma to_double_near:
  "case to_double q of Num z \<Rightarrow> \<bar>z - q\<bar> \<le> rounding_error q | _ \<Rightarrow> True"
  by (simp add: to_double_def Let_def round_double_near)


section \<open>Frames: selection, assignment and renaming\<close>

lemma filter_label_all: "(n', s') \<in> set (filter (\<lambda>(n, s). n = name) cs) \<Longrightarrow> n' = name"
  by auto

lemma getitem_Inr_iff:
  "getitem f name = Inr s \<longleftrightarrow> filter (\<lambda>(n, s). n = name) (columns f) = [(name, s)]"
proof (cases "filter (\<lambda>(n, s). n = name) (columns f)")
  case Nil
  then show ?thesis by (simp add: getitem_def)
next
  case (Cons p ps)
  obtain n' s' where p: "p = (n', s')" by (cases p)
  have "(n', s') \<in> set (filter (\<lambda>(n, s). n = name) (columns f))"
    using Cons p by simp
  then have "n' = name" by (rule filter_label_all)
  then show ?thesis using Cons p
    by (cases ps) (auto simp add: getitem_def)
qed

lemma getitem_mem: "getitem f name = Inr s \<Longrightarrow> (name, s) \<in> set (columns f)"
proof -
  assume "getitem f name = Inr s"
  then have "filter (\<lambda>(n, s). n = name) (columns f) = [(name, s)]"
    by (simp add: getitem_Inr_iff)
  then have "(name, s) \<in> set (filter (\<lambda>(n, s). n = name) (columns f))" by simp
  then show ?thesis by simp
qed

lemma getitem_unique:
  assumes "getitem f name = Inr s" and "(name, s') \<in> set (columns f)"
  shows "s' = s"
proof -
  have "filter (\<lambda>(n, s). n = name) (columns f) = [(name, s)]"
    using assms(1) by (simp add: getitem_Inr_iff)
  moreover have "(name, s') \<in> set (filter (\<lambda>(n, s). n = name) (columns f))"
    using assms(2) by simp
  ultimately show ?thesis by simp
qed

lemma filter_update_other:
  "name \<noteq> m \<Longrightarrow>
   filter (\<lambda>(n, s). n = name) (map (\<lambda>(n, old). if n = m then (n, v) else (n, old)) cs)
     = filter (\<lambda>(n, s). n = name) cs"
  by (induction cs) (auto split: if_splits)

lemma getitem_setitem_other: "name \<noteq> m \<Longrightarrow> getitem (setitem m v f) name = getitem f name"
  by (simp add: getitem_def setitem_def filter_update_other)

lemma filter_rename_fixed:
  assumes "\<forall>x. (r x = name) = (x = name)"
  shows "filter (\<lambda>(n, s). n = name) (map (\<lambda>(n, s). (r n, s)) cs)
     = filter (\<lambda>(n, s). n = name) cs"
proof (induction cs)
  case Nil
  show ?case by simp
next
  case (Cons c cs)
  obtain n s where c: "c = (n, s)" by (cases c)
  have *: "(r n = name) = (n = name)" using assms by blast
  show ?case
  proof (cases "n = name")
    case True
    then have "r n = name" using * by simp
    then show ?thesis using Cons.IH c True by simp
  next
    case False
    then have "r n \<noteq> name" using * by simp
    then show ?thesis using Cons.IH c False by simp
  qed
qed

lemma getitem_rename_fixed:
  assumes "\<forall>x. (rename_label m x = name) = (x = name)"
  shows "getitem (rename m f) name = getitem f name"
proof -
  have "filter (\<lambda>(n, s). n = name) (columns (rename m f)) = filter (\<lambda>(n, s). n = name) (columns f)"
    using filter_rename_fixed [OF assms] by (simp add: rename_def)
  then show ?thesis by (simp only: getitem_def)
qed

lemma rename_map_cases:
  "rename_label rename_map x =
     (if x = ''dteday'' then ''date'' else if x = ''yr'' then ''year''
      else if x = ''mnth'' then ''month'' else if x = ''hr'' then ''hour''
      else if x = ''weathersit'' then ''weather_code'' else if x = ''cnt'' then ''total_rentals''
      else if x = ''hum'' then ''humidity_norm'' else if x = ''atemp'' then ''feel_temp_norm''
      else if x = ''workingday'' then ''is_working_day'' else x)"
  by (simp add: rename_label_def rename_map_def)

lemma column_map_cases:
  "rename_label column_map x =
     (if x = ''dteday'' then ''date'' else if x = ''yr'' then ''year''
      else if x = ''mnth'' then ''month'' else if x = ''hr'' then ''hour''
      else if x = ''weathersit'' then ''weather_code'' else if x = ''cnt'' then ''total_rentals''
      else if x = ''hum'' then ''humidity_norm'' else if x = ''atemp'' then ''feel_temp_norm''
      else x)"
  by (simp add: rename_label_def column_map_def)

lemma rename_map_temp: "\<forall>x. (rename_label rename_map x = ''temp'') = (x = ''temp'')"
  by (simp add: rename_map_cases)

lemma rename_map_windspeed: "\<forall>x. (rename_label rename_map x = ''windspeed'') = (x = ''windspeed'')"
  by (simp add: rename_map_cases)

lemma map_err_Inr_iff: "map_err g xs = Inr ys \<longleftrightarrow> list_all2 (\<lambda>x y. g x = Inr y) xs ys"
proof (induction xs arbitrary: ys)
  case Nil
  then show ?case by auto
next
  case (Cons x xs)
  show ?case
  proof (cases ys)
    case Nil
    then show ?thesis by (simp split: sum.splits)
  next
    case (Cons y ys')
    then show ?thesis using Cons.IH [of ys'] by (auto split: sum.splits)
  qed
qed

lemma those_map_Some_iff: "those (map g xs) = Some ys \<longleftrightarrow> list_all2 (\<lambda>x y. g x = Some y) xs ys"
proof (induction xs arbitrary: ys)
  case Nil
  then show ?case by auto
next
  case (Cons x xs)
  show ?case
  proof (cases ys)
    case Nil
    then show ?thesis by (simp split: option.splits)
  next
    case (Cons y ys')
    then show ?thesis using Cons.IH [of ys'] by (auto split: option.splits)
  qed
qed

lemma run_steps_Cons_None:
  "run_steps (s # ss) f = (None, out) \<longleftrightarrow> (\<exists>f'. s f = Inr f' \<and> run_steps ss f' = (None, out))"
  by (cases "s f") auto

lemma derive_scaled_Inr:
  "derive_scaled target source k f = Inr f' \<longleftrightarrow>
     (\<exists>s s'. getitem f source = Inr s \<and> series_mul s k = Inr s' \<and> f' = setitem target s' f)"
  by (auto simp add: derive_scaled_def split: sum.splits)

lemma convert_date_Inr:
  "convert_date td f = Inr f' \<longleftrightarrow>
     (\<exists>s s'. getitem f ''date'' = Inr s \<and> those (map td s) = Some s' \<and> f' = setitem ''date'' s' f)"
  by (auto simp add: convert_date_def split: sum.splits option.splits)

lemma derive_day_type_Inr:
  "derive_day_type source f = Inr f' \<longleftrightarrow>
     (\<exists>s. getitem f source = Inr s \<and> f' = setitem ''day_type'' (map day_type_label s) f)"
  by (auto simp add: derive_day_type_def split: sum.splits)

lemma derived_steps_None:
  assumes "run_steps [derive_scaled ''temp_c'' ''temp'' 41,
             derive_scaled ''humidity_real'' ''humidity_norm'' 100,
             derive_scaled ''wind_speed_real'' ''windspeed'' 67,
             derive_day_type flag] f = (None, out)"
    and "flag \<noteq> ''temp_c''" "flag \<noteq> ''humidity_real''" "flag \<noteq> ''wind_speed_real''"
  shows "\<exists>t t' h h' ws ws' wd.
           getitem f ''temp'' = Inr t \<and> series_mul t 41 = Inr t' \<and>
           getitem f ''humidity_norm'' = Inr h \<and> series_mul h 100 = Inr h' \<and>
           getitem f ''windspeed'' = Inr ws \<and> series_mul ws 67 = Inr ws' \<and>
           getitem f flag = Inr wd \<and>
           out = setitem ''day_type'' (map day_type_label wd)
                   (setitem ''wind_speed_real'' ws'
                      (setitem ''humidity_real'' h' (setitem ''temp_c'' t' f)))"
  using assms
  by (auto simp del: run_steps.simps(2)
        simp add: run_steps_Cons_None derive_scaled_Inr derive_day_type_Inr getitem_setitem_other)

lemma nrows_setitem: "nrows (setitem n s f) = nrows f"
  by (simp add: setitem_def)

lemma nrows_rename: "nrows (rename m f) = nrows f"
  by (simp add: rename_def)

lemma length_columns_rename: "length (columns (rename m f)) = length (columns f)"
  by (simp add: rename_def)

lemma nth_columns_rename:
  "j < length (columns f) \<Longrightarrow>
   columns (rename m f) ! j = (rename_label m (fst (columns f ! j)), snd (columns f ! j))"
  by (simp add: rename_def case_prod_beta)

lemma length_columns_setitem: "j < length (columns f) \<Longrightarrow> j < length (columns (setitem n s f))"
  by (simp add: setitem_def)

lemma fst_nth_setitem:
  "j < length (columns f) \<Longrightarrow> fst (columns (setitem n s f) ! j) = fst (columns f ! j)"
  by (simp add: setitem_def nth_append case_prod_beta)

lemma snd_nth_setitem:
  "j < length (columns f) \<Longrightarrow>
   snd (columns (setitem n s f) ! j) = (if fst (columns f ! j) = n then s else snd (columns f ! j))"
  using nth_mem [of j "columns f"]
  by (auto simp add: setitem_def labels_def nth_append case_prod_beta)

lemma update_mem:
  "(m, c) \<in> set (map (\<lambda>(n', old). if n' = n then (n', s) else (n', old)) cs) \<longleftrightarrow>
     (if m = n then c = s \<and> n \<in> fst ` set cs else (m, c) \<in> set cs)"
proof (induction cs)
  case Nil
  show ?case by simp
next
  case (Cons p cs)
  obtain a b where p: "p = (a, b)" by (cases p)
  show ?case using Cons.IH by (cases "a = n"; cases "m = n") (auto simp add: p)
qed

lemma setitem_mem_same: "(n, s') \<in> set (columns (setitem n s f)) \<longleftrightarrow> s' = s"
proof (cases "n \<in> set (labels f)")
  case True
  then have "n \<in> fst ` set (columns f)" by (simp add: labels_def)
  then show ?thesis using True by (simp add: setitem_def update_mem del: set_map)
next
  case False
  then have "(n, s') \<notin> set (columns f)" by (force simp add: labels_def)
  then show ?thesis using False by (simp add: setitem_def)
qed

lemma setitem_mem_other:
  "m \<noteq> n \<Longrightarrow> (m, c) \<in> set (columns (setitem n s f)) \<longleftrightarrow> (m, c) \<in> set (columns f)"
  by (simp add: setitem_def update_mem del: set_map)

lemma wf_frame_setitem: "wf_frame f \<Longrightarrow> length s = nrows f \<Longrightarrow> wf_frame (setitem n s f)"
  by (auto simp add: wf_frame_def setitem_def list_all_iff split: if_splits)

lemma wf_frame_rename: "wf_frame f \<Longrightarrow> wf_frame (rename m f)"
  by (auto simp add: wf_frame_def rename_def list_all_iff)

lemma wf_frame_getitem: "wf_frame f \<Longrightarrow> getitem f n = Inr s \<Longrightarrow> length s = nrows f"
  using getitem_mem [of f n s] by (auto simp add: wf_frame_def list_all_iff)

lemma series_mul_length: "series_mul s k = Inr s' \<Longrightarrow> length s' = length s"
  by (simp add: series_mul_def map_err_Inr_iff list_all2_lengthD)

lemma those_map_length: "those (map g xs) = Some ys \<Longrightarrow> length ys = length xs"
  by (simp add: those_map_Some_iff list_all2_lengthD)

lemma labels_setitem:
  "labels (setitem n s f) = (if n \<in> set (labels f) then labels f else labels f @ [n])"
  by (auto simp add: labels_def setitem_def case_prod_beta intro: map_idI)

lemma files_print: "files (print s w) = files w"
  by (simp add: print_def)

lemma read_csv_Inr: "read_csv w p = Inr f \<longleftrightarrow> files w p = Some (CsvFile f)"
  by (simp add: read_csv_def split: option.splits node.splits)

lemma loader_steps_None:
  assumes "run_steps (loader_steps td) raw = (None, out)"
  shows "\<exists>d d' t t' h h' ws ws' wd.
           getitem (rename rename_map raw) ''date'' = Inr d \<and> those (map td d) = Some d' \<and>
           getitem (rename rename_map raw) ''temp'' = Inr t \<and> series_mul t 41 = Inr t' \<and>
           getitem (rename rename_map raw) ''humidity_norm'' = Inr h \<and> series_mul h 100 = Inr h' \<and>
           getitem (rename rename_map raw) ''windspeed'' = Inr ws \<and> series_mul ws 67 = Inr ws' \<and>
           getitem (rename rename_map raw) ''is_working_day'' = Inr wd \<and>
           out = setitem ''day_type'' (map day_type_label wd)
                   (setitem ''wind_speed_real'' ws'
                      (setitem ''humidity_real'' h'
                         (setitem ''temp_c'' t' (setitem ''date'' d' (rename rename_map raw)))))"
proof -
  from assms obtain f1 where
      f1: "convert_date td (rename rename_map raw) = Inr f1" and
      rest: "run_steps [derive_scaled ''temp_c'' ''temp'' 41,
               derive_scaled ''humidity_real'' ''humidity_norm'' 100,
               derive_scaled ''wind_speed_real'' ''windspeed'' 67,
               derive_day_type ''is_working_day''] f1 = (None, out)"
    by (auto simp del: run_steps.simps(2)
          simp add: loader_steps_def run_steps_Cons_None rename_step_def)
  from f1 obtain d d' where
      d: "getitem (rename rename_map raw) ''date'' = Inr d" "those (map td d) = Some d'" and
      f1_eq: "f1 = setitem ''date'' d' (rename rename_map raw)"
    by (auto simp add: convert_date_Inr)
  from derived_steps_None [OF rest] show ?thesis
    using d by (auto simp add: f1_eq getitem_setitem_other)
qed

lemma pipeline_steps_None:
  assumes "run_steps pipeline_steps raw = (None, out)"
  shows "\<exists>t t' h h' ws ws' wd.
           getitem (rename column_map raw) ''temp'' = Inr t \<and> series_mul t 41 = Inr t' \<and>
           getitem (rename column_map raw) ''humidity_norm'' = Inr h \<and> series_mul h 100 = Inr h' \<and>
           getitem (rename column_map raw) ''windspeed'' = Inr ws \<and> series_mul ws 67 = Inr ws' \<and>
           getitem (rename column_map raw) ''workingday'' = Inr wd \<and>
           out = setitem ''day_type'' (map day_type_label wd)
                   (setitem ''wind_speed_real'' ws'
                      (setitem ''humidity_real'' h'
                         (setitem ''temp_c'' t' (rename column_map raw))))"
proof -
  from assms have
      rest: "run_steps [derive_scaled ''temp_c'' ''temp'' 41,
               derive_scaled ''humidity_real'' ''humidity_norm'' 100,
               derive_scaled ''wind_speed_real'' ''windspeed'' 67,
               derive_day_type ''workingday''] (rename column_map raw) = (None, out)"
    by (auto simp del: run_steps.simps(2)
          simp add: pipeline_steps_def run_steps_Cons_None rename_step_def)
  from derived_steps_None [OF rest] show ?thesis by auto
qed

lemma load_and_clean_Inr:
  assumes "load_and_clean td self w = (Inr out, self', w')"
  shows "\<exists>raw. files w (l_hourly_path self) = Some (CsvFile raw) \<and>
           run_steps (loader_steps td) raw = (None, out) \<and>
           os_path_exists w (l_hourly_path self) \<and>
           self' = self\<lparr>l_df := Some out\<rparr> \<and>
           w' = print (''Loading data from '' @ l_hourly_path self @ ''...'') w"
  using assms
  by (auto simp add: load_and_clean_def Let_def read_csv_Inr files_print
        split: if_splits sum.splits prod.splits option.splits)

lemma process_data_Inr:
  assumes "process_data self w = (Inr (), self', w')" and "os_path_exists w (p_hourly_path self)"
  shows "\<exists>raw out t. files w (p_hourly_path self) = Some (CsvFile raw) \<and>
           run_steps pipeline_steps raw = (None, out) \<and> to_sql out = Inr t \<and>
           self' = self\<lparr>p_df := Some out, p_conn := (p_conn self)(''rentals'' \<mapsto> t)\<rparr> \<and>
           w' = print ''Data successfully loaded into SQL environment.''
                  (print (''Loading data from '' @ p_hourly_path self @ ''...'') w)"
  using assms
  by (auto simp add: process_data_def Let_def read_csv_Inr files_print
        split: if_splits sum.splits prod.splits option.splits)

lemma nth_label_mem: "j < length (columns f) \<Longrightarrow> (fst (columns f ! j), snd (columns f ! j)) \<in> set (columns f)"
  by simp

lemma labels_rename: "labels (rename m f) = map (rename_label m) (labels f)"
  by (simp add: labels_def rename_def case_prod_beta)

lemma getitem_labels: "getitem f n = Inr s \<Longrightarrow> n \<in> set (labels f)"
  using getitem_mem [of f n s] by (force simp add: labels_def)

lemma labels_setitem_append:
  "\<exists>ex. labels (setitem n s f) = labels f @ ex \<and> set ex \<subseteq> {n}"
  by (simp add: labels_setitem)

lemma derived_labels:
  assumes "out = setitem ''day_type'' a
                   (setitem ''wind_speed_real'' b
                      (setitem ''humidity_real'' c (setitem ''temp_c'' d f)))"
  shows "take (length (columns f)) (labels out) = labels f \<and>
         set (drop (length (columns f)) (labels out))
           \<subseteq> {''temp_c'', ''humidity_real'', ''wind_speed_real'', ''day_type''}"
proof -
  define f1 where "f1 = setitem ''temp_c'' d f"
  define f2 where "f2 = setitem ''humidity_real'' c f1"
  define f3 where "f3 = setitem ''wind_speed_real'' b f2"
  obtain e1 where e1: "labels f1 = labels f @ e1" "set e1 \<subseteq> {''temp_c''}"
    unfolding f1_def using labels_setitem_append by blast
  obtain e2 where e2: "labels f2 = labels f1 @ e2" "set e2 \<subseteq> {''humidity_real''}"
    unfolding f2_def using labels_setitem_append by blast
  obtain e3 where e3: "labels f3 = labels f2 @ e3" "set e3 \<subseteq> {''wind_speed_real''}"
    unfolding f3_def using labels_setitem_append by blast
  obtain e4 where e4: "labels out = labels f3 @ e4" "set e4 \<subseteq> {''day_type''}"
    unfolding assms f3_def f2_def f1_def using labels_setitem_append by blast
  have all: "labels out = labels f @ (e1 @ e2 @ e3 @ e4)"
    by (simp add: e1 e2 e3 e4)
  have len: "length (columns f) = length (labels f)" by (simp add: labels_def)
  have "take (length (columns f)) (labels out) = labels f"
    unfolding all len by simp
  moreover have "drop (length (columns f)) (labels out) = e1 @ e2 @ e3 @ e4"
    unfolding all len by simp
  ultimately show ?thesis using e1(2) e2(2) e3(2) e4(2) by auto
qed

lemma spec_rename_eq: "rename_label rename_map = spec_rename"
  by (rule ext) (simp add: rename_map_cases spec_rename_def)

lemma column_map_eq:
  "rename_label column_map = (\<lambda>n. if n = ''workingday'' then n else spec_rename n)"
  by (rule ext) (simp add: column_map_cases spec_rename_def)

lemma day_type_rows:
  "list_all2 (\<lambda>x y. (y = Str ''Working Day'' \<longleftrightarrow> x = Int64 1 \<or> x = Num 1) \<and>
                     (x \<noteq> Int64 1 \<and> x \<noteq> Num 1 \<longrightarrow> y = Str ''Weekend/Holiday''))
     flag (map day_type_label flag)"
  by (simp add: list_all2_map2 list_all2_same day_type_label_def)

lemma derived_day_type:
  assumes out: "out = setitem ''day_type'' (map day_type_label wd)
                   (setitem ''wind_speed_real'' ws'
                      (setitem ''humidity_real'' h' (setitem ''temp_c'' t' f)))"
    and wd: "getitem f src = Inr wd"
    and src: "src \<noteq> ''temp_c''" "src \<noteq> ''humidity_real''" "src \<noteq> ''wind_speed_real''"
             "src \<noteq> ''day_type''"
  shows "getitem out src = Inr wd \<and>
         (\<exists>s. (''day_type'', s) \<in> set (columns out)) \<and>
         (\<forall>s. (''day_type'', s) \<in> set (columns out) \<longrightarrow>
            list_all2 (\<lambda>x y. (y = Str ''Working Day'' \<longleftrightarrow> x = Int64 1 \<or> x = Num 1) \<and>
                              (x \<noteq> Int64 1 \<and> x \<noteq> Num 1 \<longrightarrow> y = Str ''Weekend/Holiday'')) wd s)"
proof -
  have g: "getitem out src = Inr wd"
    unfolding out
    by (simp only: getitem_setitem_other [OF src(1)] getitem_setitem_other [OF src(2)]
          getitem_setitem_other [OF src(3)] getitem_setitem_other [OF src(4)] wd)
  have iff: "(''day_type'', s) \<in> set (columns out) \<longleftrightarrow> s = map day_type_label wd" for s
    unfolding out by (rule setitem_mem_same)
  have mem: "\<exists>s. (''day_type'', s) \<in> set (columns out)"
    using iff by blast
  have rows: "\<forall>s. (''day_type'', s) \<in> set (columns out) \<longrightarrow>
            list_all2 (\<lambda>x y. (y = Str ''Working Day'' \<longleftrightarrow> x = Int64 1 \<or> x = Num 1) \<and>
                              (x \<noteq> Int64 1 \<and> x \<noteq> Num 1 \<longrightarrow> y = Str ''Weekend/Holiday'')) wd s"
    by (simp only: iff) (simp add: day_type_rows)
  show ?thesis by (intro conjI g mem rows)
qed

lemma wrap64_id: "- (2 ^ 63) \<le> i \<Longrightarrow> i < 2 ^ 63 \<Longrightarrow> wrap64 i = i"
  by (simp add: wrap64_def)

lemma constants_exact:
  "round_double (of_nat 41) = of_nat 41"
  "round_double (of_nat 100) = of_nat 100"
  "round_double (of_nat 67) = of_nat 67"
  by code_simp+

lemma py_mul_scaled:
  assumes "py_mul x k = Inr y" and "round_double (of_nat k) = of_nat k"
  shows "case x of
           Null \<Rightarrow> y = Null
         | Int64 i \<Rightarrow>
             y = Int64 (wrap64 (i * int k)) \<and>
             (- (2 ^ 63) \<le> i * int k \<and> i * int k < 2 ^ 63 \<longrightarrow> y = Int64 (i * int k))
         | Num r \<Rightarrow>
             y = to_double (r * of_nat k) \<and>
             (case y of
                Num z \<Rightarrow> \<bar>z - r * of_nat k\<bar> \<le> rounding_error (r * of_nat k)
              | _ \<Rightarrow> True)
         | Infinity b \<Rightarrow> 0 < k \<longrightarrow> y = Infinity b
         | _ \<Rightarrow> True"
proof (cases x)
  case (Int64 i)
  then show ?thesis using assms(1) by (auto simp add: wrap64_id)
next
  case (Num r)
  then have "y = to_double (r * of_nat k)" using assms by simp
  then show ?thesis using to_double_near [of "r * of_nat k"] by (simp only: Num cell.case)
qed (use assms(1) in auto)

lemma series_mul_scaled_by:
  assumes "series_mul s k = Inr s'" and "round_double (of_nat k) = of_nat k"
  shows "scaled_by k s s'"
proof -
  have "list_all2 (\<lambda>x y. py_mul x k = Inr y) s s'"
    using assms(1) by (simp add: series_mul_def map_err_Inr_iff)
  then show ?thesis
    unfolding scaled_by_def
    by (rule list_all2_mono) (simp add: py_mul_scaled [OF _ assms(2)])
qed

lemma derived_from_setitem:
  assumes "getitem f source = Inr src" and "series_mul src k = Inr s'" and "source \<noteq> target"
    and "round_double (of_nat k) = of_nat k"
  shows "derived_from (setitem target s' f) target k source"
proof -
  have g: "getitem (setitem target s' f) source = Inr src"
    using assms(1) by (simp only: getitem_setitem_other [OF assms(3)])
  have l: "target \<in> set (labels (setitem target s' f))"
    by (simp add: labels_setitem)
  have "scaled_by k src s" if "(target, s) \<in> set (columns (setitem target s' f))" for s
    using that series_mul_scaled_by [OF assms(2,4)] by (simp add: setitem_mem_same)
  then have "list_all (\<lambda>(n, s). n = target \<longrightarrow> scaled_by k src s) (columns (setitem target s' f))"
    by (auto simp add: list_all_iff)
  then show ?thesis by (simp add: derived_from_def g l)
qed

lemma derived_from_setitem_other:
  assumes "derived_from f target k source" and "n \<noteq> target" and "n \<noteq> source"
  shows "derived_from (setitem n s f) target k source"
proof -
  from assms(1) obtain src where
      g: "getitem f source = Inr src" and l: "target \<in> set (labels f)" and
      a: "list_all (\<lambda>(n, s). n = target \<longrightarrow> scaled_by k src s) (columns f)"
    by (auto simp add: derived_from_def split: sum.splits)
  have ns: "source \<noteq> n" and nt: "target \<noteq> n"
    using assms(2,3) by simp_all
  have g': "getitem (setitem n s f) source = Inr src"
    by (simp only: getitem_setitem_other [OF ns] g)
  have l': "target \<in> set (labels (setitem n s f))"
    using l by (simp add: labels_setitem)
  have "scaled_by k src c" if "(target, c) \<in> set (columns (setitem n s f))" for c
  proof -
    have "(target, c) \<in> set (columns f)"
      using that by (simp only: setitem_mem_other [OF nt])
    then show ?thesis using a by (auto simp add: list_all_iff)
  qed
  then have "list_all (\<lambda>(n, s). n = target \<longrightarrow> scaled_by k src s) (columns (setitem n s f))"
    by (auto simp add: list_all_iff)
  then show ?thesis by (simp add: derived_from_def g' l')
qed

lemma derived_chain:
  assumes out: "out = setitem ''day_type'' a
                   (setitem ''wind_speed_real'' ws'
                      (setitem ''humidity_real'' h' (setitem ''temp_c'' t' f)))"
    and t: "getitem f ''temp'' = Inr t" "series_mul t 41 = Inr t'"
    and h: "getitem f ''humidity_norm'' = Inr h" "series_mul h 100 = Inr h'"
    and ws: "getitem f ''windspeed'' = Inr ws" "series_mul ws 67 = Inr ws'"
  shows "derived_from out ''temp_c'' 41 ''temp''"
    and "derived_from out ''humidity_real'' 100 ''humidity_norm''"
    and "derived_from out ''wind_speed_real'' 67 ''windspeed''"
    and "getitem out ''temp'' = Inr t"
    and "getitem out ''humidity_norm'' = Inr h"
    and "getitem out ''windspeed'' = Inr ws"
proof -
  define f1 where "f1 = setitem ''temp_c'' t' f"
  define f2 where "f2 = setitem ''humidity_real'' h' f1"
  define f3 where "f3 = setitem ''wind_speed_real'' ws' f2"
  have out3: "out = setitem ''day_type'' a f3"
    by (simp add: out f3_def f2_def f1_def)
  have g1: "getitem f1 n = getitem f n" if "n \<noteq> ''temp_c''" for n
    unfolding f1_def by (rule getitem_setitem_other [OF that])
  have g2: "getitem f2 n = getitem f1 n" if "n \<noteq> ''humidity_real''" for n
    unfolding f2_def by (rule getitem_setitem_other [OF that])
  have g3: "getitem f3 n = getitem f2 n" if "n \<noteq> ''wind_speed_real''" for n
    unfolding f3_def by (rule getitem_setitem_other [OF that])
  have g4: "getitem out n = getitem f3 n" if "n \<noteq> ''day_type''" for n
    unfolding out3 by (rule getitem_setitem_other [OF that])
  show "getitem out ''temp'' = Inr t"
    by (simp add: g4 g3 g2 g1 t)
  show "getitem out ''humidity_norm'' = Inr h"
    by (simp add: g4 g3 g2 g1 h)
  show "getitem out ''windspeed'' = Inr ws"
    by (simp add: g4 g3 g2 g1 ws)
  have "derived_from f1 ''temp_c'' 41 ''temp''"
    unfolding f1_def by (rule derived_from_setitem [OF t _ constants_exact(1)]) simp
  then have "derived_from f2 ''temp_c'' 41 ''temp''"
    unfolding f2_def by (rule derived_from_setitem_other) simp_all
  then have "derived_from f3 ''temp_c'' 41 ''temp''"
    unfolding f3_def by (rule derived_from_setitem_other) simp_all
  then show "derived_from out ''temp_c'' 41 ''temp''"
    unfolding out3 by (rule derived_from_setitem_other) simp_all
  have "getitem f1 ''humidity_norm'' = Inr h" by (simp add: g1 h)
  then have "derived_from f2 ''humidity_real'' 100 ''humidity_norm''"
    unfolding f2_def by (rule derived_from_setitem [OF _ h(2) _ constants_exact(2)]) simp
  then have "derived_from f3 ''humidity_real'' 100 ''humidity_norm''"
    unfolding f3_def by (rule derived_from_setitem_other) simp_all
  then show "derived_from out ''humidity_real'' 100 ''humidity_norm''"
    unfolding out3 by (rule derived_from_setitem_other) simp_all
  have "getitem f2 ''windspeed'' = Inr ws" by (simp add: g2 g1 ws)
  then have "derived_from f3 ''wind_speed_real'' 67 ''windspeed''"
    unfolding f3_def by (rule derived_from_setitem [OF _ ws(2) _ constants_exact(3)]) simp
  then show "derived_from out ''wind_speed_real'' 67 ''windspeed''"
    unfolding out3 by (rule derived_from_setitem_other) simp_all
qed

lemma getitem_rename_source:
  assumes "getitem (rename m f) n = Inr s"
  shows "\<exists>n0. (n0, s) \<in> set (columns f) \<and> rename_label m n0 = n"
proof -
  have "(n, s) \<in> set (columns (rename m f))" using assms by (rule getitem_mem)
  then show ?thesis by (auto simp add: rename_def)
qed

lemma rename_map_humidity:
  "rename_label rename_map n = ''humidity_norm'' \<Longrightarrow> n = ''hum'' \<or> n = ''humidity_norm''"
  by (simp add: rename_map_cases split: if_splits)

lemma column_map_humidity:
  "rename_label column_map n = ''humidity_norm'' \<Longrightarrow> n = ''hum'' \<or> n = ''humidity_norm''"
  by (simp add: column_map_cases split: if_splits)

lemma column_map_temp: "\<forall>x. (rename_label column_map x = ''temp'') = (x = ''temp'')"
  by (simp add: column_map_cases)

lemma column_map_windspeed: "\<forall>x. (rename_label column_map x = ''windspeed'') = (x = ''windspeed'')"
  by (simp add: column_map_cases)

section \<open>The sample data set through both loaders\<close>

lemma example_load:
  "fst (load_and_clean example_to_datetime (BikeDataLoader ''data/hour.csv'' ''data/day.csv'')
          example_world) = Inr example_clean"
  by code_simp

lemma example_load_triple:
  "\<exists>l' w'. load_and_clean example_to_datetime (BikeDataLoader ''data/hour.csv'' ''data/day.csv'')
             example_world = (Inr example_clean, l', w')"
  using example_load by (metis prod.collapse)

lemma example_process:
  "fst (process_data (BikeDataPipeline ''hour.csv'' ''day.csv'' (Some ''trips.csv'')) example_world)
     = Inr ()"
  "p_df (fst (snd (process_data (BikeDataPipeline ''hour.csv'' ''day.csv'' (Some ''trips.csv''))
                     example_world))) = Some example_processed"
  by code_simp+

lemma example_process_triple:
  "\<exists>p' w'. process_data (BikeDataPipeline ''hour.csv'' ''day.csv'' (Some ''trips.csv''))
             example_world = (Inr (), p', w') \<and> p_df p' = Some example_processed"
  using example_process by (metis prod.collapse)

lemma example_paths:
  "os_path_exists example_world ''hour.csv''"
  "os_path_exists example_world ''data/hour.csv''"
  "files example_world ''hour.csv'' = Some (CsvFile example_hourly)"
  "files example_world ''data/hour.csv'' = Some (CsvFile example_hourly)"
  "l_hourly_path (BikeDataLoader ''data/hour.csv'' ''data/day.csv'') = ''data/hour.csv''"
  "p_hourly_path (BikeDataPipeline ''hour.csv'' ''day.csv'' (Some ''trips.csv'')) = ''hour.csv''"
  by (simp_all add: os_path_exists_def example_world_def BikeDataLoader_def BikeDataPipeline_def)

section \<open>One pass over the rows builds the groups\<close>

lemma group_values_simps:
  "group_values k [] = []"
  "group_values k ((k', v) # rows) = (if k' = k then v # group_values k rows else group_values k rows)"
  "group_values k (rows @ rows') = group_values k rows @ group_values k rows'"
  by (simp_all add: group_values_def)

lemma group_step_keys:
  "map fst (group_step step init k v gs) =
     (if k \<in> set (map fst gs) then map fst gs else map fst gs @ [k])"
  by (induction gs) (force split: if_splits)+

lemma group_step_distinct:
  "distinct (map fst gs) \<Longrightarrow> distinct (map fst (group_step step init k v gs))"
  by (simp add: group_step_keys)

lemma group_step_map_of:
  "map_of (group_step step init k v gs) =
     (map_of gs)(k \<mapsto> step (case map_of gs k of None \<Rightarrow> init | Some a \<Rightarrow> a) v)"
  by (induction gs) (auto simp add: fun_eq_iff)

text \<open>The invariant of the pass, from any list of open groups.\<close>

lemma group_fold:
  assumes "distinct (map fst gs)"
  shows "distinct (map fst (foldl (\<lambda>gs (k, v). group_step step init k v gs) gs rows)) \<and>
         set (map fst (foldl (\<lambda>gs (k, v). group_step step init k v gs) gs rows))
           = set (map fst gs) \<union> fst ` set rows \<and>
         (\<forall>k. map_of (foldl (\<lambda>gs (k, v). group_step step init k v gs) gs rows) k =
            (case map_of gs k of
               Some a \<Rightarrow> Some (foldl step a (group_values k rows))
             | None \<Rightarrow> if k \<in> fst ` set rows
                        then Some (foldl step init (group_values k rows)) else None))"
  using assms
proof (induction rows arbitrary: gs)
  case Nil
  then show ?case by (auto simp add: group_values_simps split: option.splits)
next
  case (Cons r rows)
  obtain k v where r: "r = (k, v)" by (cases r)
  let ?gs = "group_step step init k v gs"
  have d: "distinct (map fst ?gs)" using Cons.prems by (rule group_step_distinct)
  note ih = Cons.IH [OF d]
  have keys: "set (map fst ?gs) = insert k (set (map fst gs))"
    by (auto simp add: group_step_keys)
  show ?case
  proof (intro conjI allI)
    show "distinct (map fst (foldl (\<lambda>gs (k, v). group_step step init k v gs) gs (r # rows)))"
      using ih by (simp add: r)
    show "set (map fst (foldl (\<lambda>gs (k, v). group_step step init k v gs) gs (r # rows)))
           = set (map fst gs) \<union> fst ` set (r # rows)"
      using ih keys by (auto simp add: r)
    fix k'
    have "map_of (foldl (\<lambda>gs (k, v). group_step step init k v gs) gs (r # rows)) k' =
            (case map_of ?gs k' of
               Some a \<Rightarrow> Some (foldl step a (group_values k' rows))
             | None \<Rightarrow> if k' \<in> fst ` set rows
                        then Some (foldl step init (group_values k' rows)) else None)"
      using ih by (simp add: r)
    also have "\<dots> = (case map_of gs k' of
               Some a \<Rightarrow> Some (foldl step a (group_values k' (r # rows)))
             | None \<Rightarrow> if k' \<in> fst ` set (r # rows)
                        then Some (foldl step init (group_values k' (r # rows))) else None)"
      by (auto simp add: r group_step_map_of group_values_simps split: option.splits)
    finally show "map_of (foldl (\<lambda>gs (k, v). group_step step init k v gs) gs (r # rows)) k' =
            (case map_of gs k' of
               Some a \<Rightarrow> Some (foldl step a (group_values k' (r # rows)))
             | None \<Rightarrow> if k' \<in> fst ` set (r # rows)
                        then Some (foldl step init (group_values k' (r # rows))) else None)" .
  qed
qed

lemma group_by_distinct: "distinct (map fst (group_by step init rows))"
  using group_fold [of "[]" step init rows] by (simp add: group_by_def)

lemma group_by_keys: "set (map fst (group_by step init rows)) = fst ` set rows"
  using group_fold [of "[]" step init rows] by (simp add: group_by_def)

lemma group_by_value:
  assumes "(k, a) \<in> set (group_by step init rows)"
  shows "a = foldl step init (group_values k rows)"
proof -
  have "map_of (group_by step init rows) k = Some a"
    using assms group_by_distinct [of step init rows] by simp
  moreover have "map_of (group_by step init rows) k =
      (if k \<in> fst ` set rows then Some (foldl step init (group_values k rows)) else None)"
    using group_fold [of "[]" step init rows] by (simp add: group_by_def)
  ultimately show ?thesis by (simp split: if_splits)
qed

section \<open>Accumulators compute means; sort keys are faithful\<close>

lemma integral_sums:
  assumes "list_all (\<lambda>r. of_int \<lfloor>r\<rfloor> = r) (rs :: rat list)"
  shows "of_int (sum_list (map floor rs)) = sum_list rs"
    and "of_int (sum_list (map abs (map floor rs))) = sum_list (map abs rs)"
  using assms
proof (induction rs)
  case Nil
  {
    case 1
    show ?case by simp
  next
    case 2
    show ?case by simp
  }
next
  case (Cons r rs)
  {
    case 1
    then show ?case using Cons.IH(1) by simp
  next
    case 2
    then have "of_int \<lfloor>r\<rfloor> = r" by simp
    then have "of_int \<bar>\<lfloor>r\<rfloor>\<bar> = \<bar>r\<bar>"
      by (simp only: of_int_abs)
    then show ?case using 2 Cons.IH(2) by simp
  }
qed

text \<open>
  The mean over the integer parts, as the engines' code has it, is the rounded mean of
  the numbers when these are integers.
\<close>

lemma exact_mean_floor:
  assumes "list_all (\<lambda>r. of_int \<lfloor>r\<rfloor> = r) (rs :: rat list)" and "rs \<noteq> []"
  shows "exact_mean (map floor rs) = (if small_integers rs then Some (rounded_mean rs) else None)"
proof -
  note i = integral_sums [OF assms(1)]
  have "sum_list (map abs (map floor rs)) \<le> 2 ^ 53
          \<longleftrightarrow> (of_int (sum_list (map abs (map floor rs))) :: rat) \<le> 2 ^ 53"
    by simp
  then have "sum_list (map abs (map floor rs)) \<le> 2 ^ 53 \<longleftrightarrow> sum_list (map abs rs) \<le> 2 ^ 53"
    by (simp only: i(2))
  then show ?thesis
    using assms
    by (simp add: exact_mean_def small_integers_def rounded_mean_def arithmetic_mean_def i(1))
qed


lemma cell_integer_number:
  "those (map cell_integer cs) =
     (case those (map cell_number cs) of
        None \<Rightarrow> None
      | Some rs \<Rightarrow> if list_all (\<lambda>r. of_int \<lfloor>r\<rfloor> = r) rs then Some (map floor rs) else None)"
proof (induction cs)
  case Nil
  show ?case by simp
next
  case (Cons c cs)
  show ?case by (cases c) (auto simp add: Cons.IH split: option.splits)
qed

lemma those_map_Nil: "those (map g xs) = Some [] \<longleftrightarrow> xs = []"
  by (cases xs) (auto split: option.splits)




lemma mean_fold: "foldl mean_step acc cs = acc @ filter (\<lambda>c. c \<noteq> Null) cs"
proof (induction cs arbitrary: acc)
  case Nil
  show ?case by simp
next
  case (Cons c cs)
  show ?case by (cases c) (simp_all add: Cons.IH)
qed

lemma mean_final_present:
  "mean_final pm (filter (\<lambda>c. c \<noteq> Null) cs) = cell_mean pm cs"
proof (cases "filter (\<lambda>c. c \<noteq> Null) cs = []")
  case True
  then show ?thesis by (simp add: mean_final_def cell_mean_def)
next
  case False
  let ?P = "filter (\<lambda>c. c \<noteq> Null) cs"
  show ?thesis
  proof (cases "those (map cell_number ?P)")
    case None
    then show ?thesis
      using False by (simp add: mean_final_def cell_mean_def cell_integer_number)
  next
    case (Some rs)
    then have ne: "rs \<noteq> []" using False by (auto simp add: those_map_Nil)
    show ?thesis
    proof (cases "list_all (\<lambda>r. of_int \<lfloor>r\<rfloor> = r) rs")
      case True
      then show ?thesis
        using False Some exact_mean_floor [OF True ne]
        by (simp add: mean_final_def cell_mean_def cell_integer_number)
    next
      case no: False
      then have "\<not> small_integers rs" by (simp add: small_integers_def)
      then show ?thesis
        using False Some no by (simp add: mean_final_def cell_mean_def cell_integer_number)
    qed
  qed
qed

lemma mean_final_fold: "mean_final pm (foldl mean_step [] cs) = cell_mean pm cs"
  by (simp only: mean_fold append_Nil mean_final_present)











lemma distinct_map_sort_key:
  "distinct (map g (sort_key f xs)) \<longleftrightarrow> distinct (map g xs)"
  by (simp add: distinct_map)


section \<open>The temporal query on rows\<close>


lemma temporal_rows_keys:
  "distinct (map (\<lambda>(h, d, a). (h, d)) (temporal_rows tr rows))"
  "set (map (\<lambda>(h, d, a). (h, d)) (temporal_rows tr rows)) = set (map (\<lambda>(h, d, v). (h, d)) rows)"
proof -
  let ?G = "group_by avg_step [] (map (\<lambda>(h, d, v). ((h, d), v)) rows)"
  let ?S = "sort_key (\<lambda>((h, d), a). (sql_key d, sql_key h)) ?G"
  have keys: "map (\<lambda>(h, d, a). (h, d)) (temporal_rows tr rows) = map fst ?S"
    by (simp add: temporal_rows_def case_prod_beta comp_def)
  show "distinct (map (\<lambda>(h, d, a). (h, d)) (temporal_rows tr rows))"
    unfolding keys by (simp only: distinct_map_sort_key group_by_distinct)
  have "set (map fst ?S) = set (map fst ?G)" by simp
  also have "\<dots> = fst ` set (map (\<lambda>(h, d, v). ((h, d), v)) rows)"
    by (rule group_by_keys)
  also have "\<dots> = set (map (\<lambda>(h, d, v). (h, d)) rows)"
    by (force simp add: image_iff)
  finally show "set (map (\<lambda>(h, d, a). (h, d)) (temporal_rows tr rows))
      = set (map (\<lambda>(h, d, v). (h, d)) rows)"
    unfolding keys .
qed




lemma example_rentals_columns:
  "to_sql example_clean = Inr example_rentals"
  "sql_column example_rentals ''hour'' = Some [SNum 8, SNum 8, SNum 8, SNull]"
  "sql_column example_rentals ''day_type''
     = Some [SText ''Working Day'', SText ''Working Day'', SText ''Working Day'',
             SText ''Weekend/Holiday'']"
  "sql_column example_rentals ''total_rentals'' = Some [SNum 10, SNum 20, SNum 30, SNum 4]"
  by code_simp+

section \<open>The pandas aggregation on rows\<close>

lemma pair_mean_fold:
  "foldl (\<lambda>(ca, ra) (c, r). (mean_step ca c, mean_step ra r)) (a, b) vs
     = (foldl mean_step a (map fst vs), foldl mean_step b (map snd vs))"
  by (induction vs arbitrary: a b) (auto simp add: case_prod_beta)

lemma weather_group_values:
  assumes "k \<noteq> Null"
  shows "map fst (group_values k (filter (\<lambda>(k, v). k \<noteq> Null) rows))
           = [c. (k', c, r) \<leftarrow> rows, k' = k]"
    and "map snd (group_values k (filter (\<lambda>(k, v). k \<noteq> Null) rows))
           = [r. (k', c, r) \<leftarrow> rows, k' = k]"
  using assms by (induction rows) (auto simp add: group_values_simps)

lemma weather_rows_keys:
  "distinct (map fst (weather_rows pm rows))"
  "set (map fst (weather_rows pm rows)) = fst ` set rows - {Null}"
proof -
  let ?K = "filter (\<lambda>(k, v). k \<noteq> Null) rows"
  let ?G = "group_by (\<lambda>(ca, ra) (c, r). (mean_step ca c, mean_step ra r)) ([], []) ?K"
  let ?S = "sort_key (\<lambda>(k, a). cell_key k) ?G"
  have keys: "map fst (weather_rows pm rows) = map fst ?S"
    by (simp add: weather_rows_def case_prod_beta comp_def)
  show "distinct (map fst (weather_rows pm rows))"
    unfolding keys by (simp only: distinct_map_sort_key group_by_distinct)
  have "set (map fst ?S) = set (map fst ?G)" by simp
  also have "\<dots> = fst ` set ?K" by (rule group_by_keys)
  also have "\<dots> = fst ` set rows - {Null}" by (force simp add: image_iff)
  finally show "set (map fst (weather_rows pm rows)) = fst ` set rows - {Null}"
    unfolding keys .
qed


lemma weather_rows_mean:
  assumes "(k, ca, ra) \<in> set (weather_rows pm rows)"
  shows "k \<noteq> Null"
    and "ca = cell_mean pm [c. (k', c, r) \<leftarrow> rows, k' = k]"
    and "ra = cell_mean pm [r. (k', c, r) \<leftarrow> rows, k' = k]"
proof -
  let ?K = "filter (\<lambda>(k, v). k \<noteq> Null) rows"
  let ?G = "group_by (\<lambda>(ca, ra) (c, r). (mean_step ca c, mean_step ra r)) ([], []) ?K"
  have "k \<in> set (map fst (weather_rows pm rows))" using assms by force
  then show k: "k \<noteq> Null" by (simp only: weather_rows_keys) simp
  from assms obtain a b where
      acc: "(k, (a, b)) \<in> set ?G" and ca: "ca = mean_final pm a" and ra: "ra = mean_final pm b"
    by (auto simp add: weather_rows_def)
  from group_by_value [OF acc]
  have "(a, b) = (foldl mean_step [] (map fst (group_values k ?K)),
                  foldl mean_step [] (map snd (group_values k ?K)))"
    by (simp only: pair_mean_fold)
  then have "a = foldl mean_step [] [c. (k', c, r) \<leftarrow> rows, k' = k]"
        and "b = foldl mean_step [] [r. (k', c, r) \<leftarrow> rows, k' = k]"
    by (simp_all only: weather_group_values [OF k] prod.inject)
  then show "ca = cell_mean pm [c. (k', c, r) \<leftarrow> rows, k' = k]"
        and "ra = cell_mean pm [r. (k', c, r) \<leftarrow> rows, k' = k]"
    by (simp_all only: ca ra mean_final_fold)
qed

lemma weather_rows_drop_null:
  "weather_rows pm rows = weather_rows pm (filter (\<lambda>(k, c, r). k \<noteq> Null) rows)"
proof -
  have "(\<lambda>(k, c, r). k \<noteq> Null) = (\<lambda>(k :: cell, v :: cell \<times> cell). k \<noteq> Null)"
    by (auto simp add: fun_eq_iff)
  then have "filter (\<lambda>(k, v). k \<noteq> Null) rows
      = filter (\<lambda>(k, v). k \<noteq> Null) (filter (\<lambda>(k, c, r). k \<noteq> Null) rows)"
    by simp
  then show ?thesis by (simp only: weather_rows_def)
qed


lemma weather_avg_columns:
  assumes "weather_avg pm f = Inr out"
  shows "\<exists>ks cs rs. getitem f ''weather_code'' = Inr ks \<and> getitem f ''casual'' = Inr cs \<and>
           getitem f ''registered'' = Inr rs \<and> out = weather_rows pm (zip ks (zip cs rs))"
  using assms by (auto simp add: weather_avg_def split: sum.splits if_splits)

lemma example_weather:
  "getitem example_clean ''weather_code'' = Inr [Num 1, Num 1, Num 2, Null]"
  "getitem example_clean ''casual'' = Inr [Int64 5, Int64 15, Int64 7, Int64 1]"
  "getitem example_clean ''registered'' = Inr [Int64 10, Int64 20, Int64 23, Int64 3]"
  "list_all is_numeric [Int64 5, Int64 15, Int64 7, Int64 1]"
  "list_all is_numeric [Int64 10, Int64 20, Int64 23, Int64 3]"
  "weather_avg sample_mean example_clean = Inr [(Num 1, Num 10, Num 15), (Num 2, Num 7, Num 23)]"
  by code_simp+

lemma temporal_rows_null_hour:
  assumes "(SNull, d, v) \<in> set rows"
  shows "\<exists>a. (SNull, d, a) \<in> set (temporal_rows tr rows)"
proof -
  have "(SNull, d) \<in> set (map (\<lambda>(h, d, v). (h, d)) rows)"
    using assms by force
  then have "(SNull, d) \<in> set (map (\<lambda>(h, d, a). (h, d)) (temporal_rows tr rows))"
    by (simp only: temporal_rows_keys)
  then show ?thesis by auto
qed

section \<open>The station query on rows\<close>

lemma count_fold: "foldl (\<lambda>c u. Suc c) n us = n + length us"
  by (induction us arbitrary: n) simp_all

lemma station_group_values:
  "length (group_values s (map (\<lambda>s. (s, ())) stations)) = count_list stations s"
  by (induction stations) (simp_all add: group_values_simps)

lemma station_groups:
  fixes stations :: "sqlval list"
  defines "G \<equiv> group_by (\<lambda>c u. Suc c) 0 (map (\<lambda>s. (s, ())) stations)"
  shows "distinct (map fst G)"
    and "set (map fst G) = set stations"
    and "(s, c) \<in> set G \<Longrightarrow> c = count_list stations s"
    and "length G = card (set stations)"
proof -
  show d: "distinct (map fst G)" unfolding G_def by (rule group_by_distinct)
  show k: "set (map fst G) = set stations"
    unfolding G_def by (simp only: group_by_keys) force
  show "c = count_list stations s" if "(s, c) \<in> set G"
    using group_by_value [OF that [unfolded G_def]]
    by (simp add: count_fold station_group_values)
  have "length G = length (map fst G)" by simp
  also have "\<dots> = card (set (map fst G))" using d by (simp only: distinct_card)
  finally show "length G = card (set stations)" by (simp only: k)
qed

lemma sorted_desc_sort_key:
  "sorted_wrt (\<lambda>(s1, c1) (s2, c2). c2 \<le> c1) (sort_key (\<lambda>(k, c). - int c) (G :: ('a \<times> nat) list))"
proof -
  have "sorted (map (\<lambda>(k, c). - int c) (sort_key (\<lambda>(k, c). - int c) G))"
    by (rule sorted_sort_key)
  then have "sorted_wrt (\<lambda>x y. (case x of (k, c) \<Rightarrow> - int c) \<le> (case y of (k, c) \<Rightarrow> - int c))
      (sort_key (\<lambda>(k, c). - int c) G)"
    by (simp only: sorted_map)
  then show ?thesis
    by (rule sorted_wrt_mono_rel [rotated]) auto
qed

lemma station_rows_props:
  fixes stations :: "sqlval list"
  shows "length (station_rows stations) = min 5 (card (set stations))"
    and "distinct (map fst (station_rows stations))"
    and "sorted_wrt (\<lambda>(s1, c1) (s2, c2). c2 \<le> c1) (station_rows stations)"
    and "\<forall>(s, c) \<in> set (station_rows stations). s \<in> set stations \<and> c = count_list stations s"
    and "\<forall>s \<in> set stations - fst ` set (station_rows stations).
           \<forall>(s', c') \<in> set (station_rows stations). count_list stations s \<le> c'"
proof -
  define G where "G = group_by (\<lambda>c u. Suc c) 0 (map (\<lambda>s. (s, ())) stations)"
  define S where "S = sort_key (\<lambda>(k, c). - int c) (rev (sort_key (\<lambda>(k, c). sql_key k) G))"
  have top: "station_rows stations = take 5 S"
    by (simp add: station_rows_def S_def G_def)
  note g = station_groups [where stations = stations, folded G_def]
  have setS: "set S = set G" by (simp add: S_def)
  have "distinct (map fst (rev (sort_key (\<lambda>(k, c). sql_key k) G)))"
    using g(1) by (simp only: rev_map [symmetric] distinct_rev distinct_map_sort_key)
  then have dS: "distinct (map fst S)"
    unfolding S_def by (simp only: distinct_map_sort_key)
  have sS: "sorted_wrt (\<lambda>(s1, c1) (s2, c2). c2 \<le> c1) S"
    unfolding S_def by (rule sorted_desc_sort_key)
  show "length (station_rows stations) = min 5 (card (set stations))"
    using g(4) by (simp add: top S_def min_def)
  show "distinct (map fst (station_rows stations))"
    unfolding top using dS by (simp add: take_map [symmetric] distinct_take)
  show "sorted_wrt (\<lambda>(s1, c1) (s2, c2). c2 \<le> c1) (station_rows stations)"
    unfolding top using sS by (rule sorted_wrt_take)
  have mem: "s \<in> set stations \<and> c = count_list stations s" if "(s, c) \<in> set S" for s c
  proof -
    have in_G: "(s, c) \<in> set G" using that setS by simp
    then have "s \<in> set (map fst G)" by force
    then show ?thesis using g(2) g(3) [OF in_G] by simp
  qed
  show "\<forall>(s, c) \<in> set (station_rows stations). s \<in> set stations \<and> c = count_list stations s"
    unfolding top using mem by (auto dest: in_set_takeD)
  show "\<forall>s \<in> set stations - fst ` set (station_rows stations).
           \<forall>(s', c') \<in> set (station_rows stations). count_list stations s \<le> c'"
  proof (intro ballI, clarify)
    fix s s' c'
    assume s: "s \<in> set stations" "s \<notin> fst ` set (station_rows stations)"
       and t: "(s', c') \<in> set (station_rows stations)"
    from s(1) g(2) obtain c where c: "(s, c) \<in> set G" by force
    then have cS: "(s, c) \<in> set S" using setS by simp
    have cnt: "c = count_list stations s" using mem [OF cS] by simp
    have "(s, c) \<notin> set (take 5 S)" using s(2) unfolding top by force
    moreover have "set S = set (take 5 S) \<union> set (drop 5 S)"
      by (metis append_take_drop_id set_append)
    ultimately have later: "(s, c) \<in> set (drop 5 S)" using cS by blast
    have "sorted_wrt (\<lambda>(s1, c1) (s2, c2). c2 \<le> c1) (take 5 S @ drop 5 S)"
      using sS by simp
    then have "\<forall>x \<in> set (take 5 S). \<forall>y \<in> set (drop 5 S). (case x of (s1, c1) \<Rightarrow> case y of (s2, c2) \<Rightarrow> c2 \<le> c1)"
      by (simp only: sorted_wrt_append) blast
    then have "c \<le> c'" using t later unfolding top by fastforce
    then show "count_list stations s \<le> c'" by (simp only: cnt)
  qed
qed

section \<open>The three ways of the spatial step\<close>

lemma spatial_skip:
  assumes "case p_trips_path self of None \<Rightarrow> True | Some tp \<Rightarrow> \<not> os_path_exists w tp"
  shows "run_spatial_analysis dqs self w =
           (Inr (), self,
            w\<lparr>stdout := stdout w @
               [Line (CHR 0x0A # ''--- Checking for Spatial Data ---''),
                Line ''[Info] 'trips.csv' not found. Skipping spatial module.'',
                Line ''Note: The standard UCI dataset is aggregated and lacks station coordinates.'']\<rparr>)"
  using assms
  by (auto simp add: run_spatial_analysis_def Let_def os_path_exists_def print_def
        split: option.splits)

lemma spatial_read:
  assumes "p_trips_path self = Some tp" and "os_path_exists w tp"
    and "files w tp = Some (CsvFile trips)" and "to_sql trips = Inr t"
    and "sql_column t ''Start Station'' = Some ss"
  shows "run_spatial_analysis dqs self w =
           (Inr (), self\<lparr>p_conn := (p_conn self)(''raw_trips'' \<mapsto> t)\<rparr>,
            w\<lparr>stdout := stdout w @
               [Line (CHR 0x0A # ''--- Checking for Spatial Data ---''),
                Line ''Loading raw trip logs for spatial analysis...'',
                Table (station_rows ss)]\<rparr>)"
  using assms
  by (simp add: run_spatial_analysis_def Let_def os_path_exists_def print_def print_table_def
        read_csv_def spatial_query_def)

lemma spatial_unreadable:
  assumes "p_trips_path self = Some tp" and "os_path_exists w tp"
    and "files w tp = Some Unreadable \<or> files w tp = Some Directory"
  shows "fst (run_spatial_analysis dqs self w) = Inl OSError"
  using assms
  by (auto simp add: run_spatial_analysis_def Let_def os_path_exists_def print_def read_csv_def)

lemma example_spatial:
  "p_trips_path (BikeDataPipeline ''hour.csv'' ''day.csv'' (Some ''trips.csv'')) = Some ''trips.csv''"
  "\<not> os_path_exists empty_world ''trips.csv''"
  "os_path_exists locked_world ''trips.csv''"
  "files locked_world ''trips.csv'' = Some Unreadable"
  "os_path_exists example_world ''trips.csv''"
  "files example_world ''trips.csv'' = Some (CsvFile example_trips)"
  by (simp_all add: BikeDataPipeline_def os_path_exists_def empty_world_def locked_world_def
        example_world_def)

lemma example_trips_table:
  "to_sql example_trips
     = Inr [(''Start Station'',
             [SText ''A'', SText ''B'', SText ''A'', SText ''C'', SText ''A'', SText ''B'',
              SText ''D'', SText ''E'', SText ''F''])]"
  "sql_column
     [(''Start Station'',
       [SText ''A'', SText ''B'', SText ''A'', SText ''C'', SText ''A'', SText ''B'',
        SText ''D'', SText ''E'', SText ''F''])] ''Start Station''
     = Some [SText ''A'', SText ''B'', SText ''A'', SText ''C'', SText ''A'', SText ''B'',
             SText ''D'', SText ''E'', SText ''F'']"
  "stdout (snd (snd (run_spatial_analysis True
                       (BikeDataPipeline ''hour.csv'' ''day.csv'' (Some ''trips.csv'')) example_world)))
     = [Line (CHR 0x0A # ''--- Checking for Spatial Data ---''),
        Line ''Loading raw trip logs for spatial analysis...'',
        Table [(SText ''A'', 3), (SText ''B'', 2), (SText ''F'', 1), (SText ''E'', 1),
               (SText ''D'', 1)]]"
  by code_simp+

section \<open>Runs without the hourly file\<close>

lemma files_os_makedirs_image:
  "files (os_makedirs p w) q = Some (ImageFile c) \<Longrightarrow> files w q = Some (ImageFile c)"
  by (simp add: os_makedirs_def split: if_splits)

lemma os_path_exists_makedirs:
  "q \<noteq> p \<Longrightarrow> os_path_exists (os_makedirs p w) q = os_path_exists w q"
  by (simp add: os_path_exists_def os_makedirs_def)

lemma load_and_clean_missing:
  assumes "\<not> os_path_exists w (l_hourly_path self)"
  shows "load_and_clean to_datetime self w = (Inl (FileNotFoundError (l_hourly_path self)), self, w)"
  using assms by (simp add: load_and_clean_def)

lemma process_data_missing:
  assumes "\<not> os_path_exists w (p_hourly_path p)"
  shows "process_data p w = (Inr (), p, print (''[!] Critical: '' @ p_hourly_path p @ '' not found.'') w)"
  using assms by (simp add: process_data_def)

lemma run_temporal_analysis_no_table:
  assumes "p_conn p ''rentals'' = None"
  shows "run_temporal_analysis sqlite_avg p w =
           (Inl DatabaseError, print (CHR 0x0A # ''--- Performing Temporal SQL Analysis ---'') w)"
  using assms by (simp add: run_temporal_analysis_def temporal_query_def Let_def)

lemma main_missing:
  assumes "\<not> os_path_exists w ''data/hour.csv''"
  shows "fst (main to_datetime sqlite_avg pandas_mean w) = Inl (FileNotFoundError ''data/hour.csv'')"
    and "files (snd (main to_datetime sqlite_avg pandas_mean w)) q = Some (ImageFile c)
           \<Longrightarrow> files w q = Some (ImageFile c)"
proof -
  let ?w0 = "if \<not> os_path_exists w ''output'' then os_makedirs ''output'' w else w"
  let ?ld = "BikeDataLoader ''data/hour.csv'' ''data/day.csv''"
  have ne: "\<not> os_path_exists ?w0 (l_hourly_path ?ld)"
    using assms by (simp add: BikeDataLoader_def os_path_exists_makedirs)
  have m: "main to_datetime sqlite_avg pandas_mean w = (Inl (FileNotFoundError ''data/hour.csv''), ?w0)"
    using load_and_clean_missing [OF ne, of to_datetime]
    by (simp add: main_def Let_def BikeDataLoader_def)
  show "fst (main to_datetime sqlite_avg pandas_mean w) = Inl (FileNotFoundError ''data/hour.csv'')"
    by (simp add: m)
  show "files w q = Some (ImageFile c)"
    if "files (snd (main to_datetime sqlite_avg pandas_mean w)) q = Some (ImageFile c)"
    using that by (auto simp add: m dest: files_os_makedirs_image split: if_splits)
qed

section \<open>A missing hourly file\<close>

text \<open>
  Claim C1, as amended. For a path that does not exist, \<open>load_and_clean\<close> raises
  \<open>FileNotFoundError\<close> and changes nothing, and the run of \<open>main\<close> ends with that error
  without writing an image. \<open>process_data\<close> does not raise: it prints that the file was
  not found and returns, leaving the pipeline as it was (no frame, no table) and writing
  no file; the temporal analysis that follows on that pipeline then fails with a
  database error, again before any image is written.
\<close>

theorem missing_hourly_file:
  "(\<not> os_path_exists w (l_hourly_path self) \<longrightarrow>
      load_and_clean to_datetime self w
        = (Inl (FileNotFoundError (l_hourly_path self)), self, w))
   \<and> (\<not> os_path_exists w ''data/hour.csv'' \<longrightarrow>
        fst (main to_datetime sqlite_avg pandas_mean w) = Inl (FileNotFoundError ''data/hour.csv'') \<and>
        (\<forall>q c. files (snd (main to_datetime sqlite_avg pandas_mean w)) q = Some (ImageFile c)
                 \<longrightarrow> files w q = Some (ImageFile c)))
   \<and> (\<not> os_path_exists w hp \<longrightarrow>
        process_data (BikeDataPipeline hp dp tp) w
          = (Inr (), BikeDataPipeline hp dp tp, print (''[!] Critical: '' @ hp @ '' not found.'') w) \<and>
        run_temporal_analysis sqlite_avg (BikeDataPipeline hp dp tp)
            (print (''[!] Critical: '' @ hp @ '' not found.'') w)
          = (Inl DatabaseError,
             print (CHR 0x0A # ''--- Performing Temporal SQL Analysis ---'')
               (print (''[!] Critical: '' @ hp @ '' not found.'') w)) \<and>
        files (print (CHR 0x0A # ''--- Performing Temporal SQL Analysis ---'')
                 (print (''[!] Critical: '' @ hp @ '' not found.'') w)) = files w)"
proof (intro conjI impI allI)
  assume "\<not> os_path_exists w (l_hourly_path self)"
  then show "load_and_clean to_datetime self w
        = (Inl (FileNotFoundError (l_hourly_path self)), self, w)"
    by (rule load_and_clean_missing)
next
  assume "\<not> os_path_exists w ''data/hour.csv''"
  then show "fst (main to_datetime sqlite_avg pandas_mean w) = Inl (FileNotFoundError ''data/hour.csv'')"
    by (rule main_missing(1))
next
  fix q c
  assume "\<not> os_path_exists w ''data/hour.csv''"
    and "files (snd (main to_datetime sqlite_avg pandas_mean w)) q = Some (ImageFile c)"
  then show "files w q = Some (ImageFile c)"
    by (rule main_missing(2))
next
  assume a: "\<not> os_path_exists w hp"
  have hp: "p_hourly_path (BikeDataPipeline hp dp tp) = hp"
    by (simp add: BikeDataPipeline_def)
  show "process_data (BikeDataPipeline hp dp tp) w
          = (Inr (), BikeDataPipeline hp dp tp, print (''[!] Critical: '' @ hp @ '' not found.'') w)"
    using process_data_missing [of w "BikeDataPipeline hp dp tp"] a by (simp add: hp)
next
  assume "\<not> os_path_exists w hp"
  have "p_conn (BikeDataPipeline hp dp tp) ''rentals'' = None"
    by (simp add: BikeDataPipeline_def)
  then show "run_temporal_analysis sqlite_avg (BikeDataPipeline hp dp tp)
            (print (''[!] Critical: '' @ hp @ '' not found.'') w)
          = (Inl DatabaseError,
             print (CHR 0x0A # ''--- Performing Temporal SQL Analysis ---'')
               (print (''[!] Critical: '' @ hp @ '' not found.'') w))"
    by (rule run_temporal_analysis_no_table)
next
  show "files (print (CHR 0x0A # ''--- Performing Temporal SQL Analysis ---'')
                 (print (''[!] Critical: '' @ hp @ '' not found.'') w)) = files w"
    by (simp only: files_print)
qed

theorem missing_hourly_file_witness:
  "\<not> os_path_exists empty_world ''data/hour.csv'' \<and>
   \<not> os_path_exists empty_world ''hour.csv'' \<and>
   fst (load_and_clean example_to_datetime (BikeDataLoader ''data/hour.csv'' ''data/day.csv'')
          empty_world) = Inl (FileNotFoundError ''data/hour.csv'') \<and>
   fst (main example_to_datetime sample_avg sample_mean empty_world) = Inl (FileNotFoundError ''data/hour.csv'') \<and>
   (\<forall>q c. files (snd (main example_to_datetime sample_avg sample_mean empty_world)) q \<noteq> Some (ImageFile c)) \<and>
   fst (process_data (BikeDataPipeline ''hour.csv'' ''day.csv'' (Some ''trips.csv'')) empty_world)
     = Inr () \<and>
   fst (run_temporal_analysis sample_avg (BikeDataPipeline ''hour.csv'' ''day.csv'' (Some ''trips.csv''))
          (print (''[!] Critical: '' @ ''hour.csv'' @ '' not found.'') empty_world))
     = Inl DatabaseError"
proof -
  have e: "\<not> os_path_exists empty_world ''data/hour.csv''" "\<not> os_path_exists empty_world ''hour.csv''"
    by (simp_all add: os_path_exists_def empty_world_def)
  have l: "l_hourly_path (BikeDataLoader ''data/hour.csv'' ''data/day.csv'') = ''data/hour.csv''"
    by (simp add: BikeDataLoader_def)
  note inst = missing_hourly_file [where w = empty_world
      and self = "BikeDataLoader ''data/hour.csv'' ''data/day.csv''"
      and to_datetime = example_to_datetime and sqlite_avg = sample_avg
      and pandas_mean = sample_mean
      and hp = "''hour.csv''" and dp = "''day.csv''" and tp = "Some ''trips.csv''"]
  have 1: "fst (load_and_clean example_to_datetime (BikeDataLoader ''data/hour.csv'' ''data/day.csv'')
          empty_world) = Inl (FileNotFoundError ''data/hour.csv'')"
    using conjunct1 [OF inst] e(1) by (simp add: l)
  have 2: "fst (main example_to_datetime sample_avg sample_mean empty_world) = Inl (FileNotFoundError ''data/hour.csv'')"
    and 3: "\<forall>q c. files (snd (main example_to_datetime sample_avg sample_mean empty_world)) q = Some (ImageFile c)
                 \<longrightarrow> files empty_world q = Some (ImageFile c)"
    using conjunct1 [OF conjunct2 [OF inst]] e(1) by simp_all
  have "\<forall>q c. files empty_world q \<noteq> Some (ImageFile c)"
    by (simp add: empty_world_def)
  with 3 have 4: "\<forall>q c. files (snd (main example_to_datetime sample_avg sample_mean empty_world)) q \<noteq> Some (ImageFile c)"
    by blast
  have 5: "fst (process_data (BikeDataPipeline ''hour.csv'' ''day.csv'' (Some ''trips.csv'')) empty_world)
     = Inr ()"
    and 6: "fst (run_temporal_analysis sample_avg (BikeDataPipeline ''hour.csv'' ''day.csv'' (Some ''trips.csv''))
          (print (''[!] Critical: '' @ ''hour.csv'' @ '' not found.'') empty_world))
     = Inl DatabaseError"
    using conjunct2 [OF conjunct2 [OF inst]] e(2) by simp_all
  show ?thesis using e 1 2 4 5 6 by (intro conjI)
qed

text \<open>
  The claim as stated, a missing-file error from either loader, fails for
  \<open>process_data\<close>: on a directory without \<open>hour.csv\<close> it returns normally after
  printing its message.
\<close>

theorem process_data_missing_counterexample:
  "\<not> os_path_exists empty_world ''hour.csv'' \<and>
   fst (process_data (BikeDataPipeline ''hour.csv'' ''day.csv'' (Some ''trips.csv'')) empty_world)
     = Inr () \<and>
   stdout (snd (snd (process_data (BikeDataPipeline ''hour.csv'' ''day.csv'' (Some ''trips.csv''))
                       empty_world)))
     = [Line ''[!] Critical: hour.csv not found.'']"
  by code_simp

section \<open>The loader keeps every row in its place\<close>

text \<open>
  Claim C5. For every valid hourly table the output of \<open>load_and_clean\<close> has as many
  rows as the input, in the input's order: nothing is dropped, added, filtered or
  reordered, rows with missing values included. Whenever the loader returns a frame,
  its index is the index of the frame read from the file and every column has that many
  entries; the columns of the input are the first columns of the output, under their
  renamed labels, and each of them carries the very same series unless the loader
  assigns to its label; the \<open>date\<close> column is the input one converted entry by entry.
\<close>

theorem load_and_clean_preserves_rows:
  assumes "load_and_clean to_datetime self w = (Inr out, self', w')"
  shows "\<exists>raw. files w (l_hourly_path self) = Some (CsvFile raw) \<and>
           nrows out = nrows raw \<and>
           (wf_frame raw \<longrightarrow> wf_frame out) \<and>
           length (columns raw) \<le> length (columns out) \<and>
           (\<forall>j < length (columns raw).
              fst (columns out ! j) = rename_label rename_map (fst (columns raw ! j)) \<and>
              (fst (columns out ! j) \<notin> {''date'', ''temp_c'', ''humidity_real'', ''wind_speed_real'', ''day_type''}
                 \<longrightarrow> snd (columns out ! j) = snd (columns raw ! j)) \<and>
              (fst (columns out ! j) = ''date''
                 \<longrightarrow> list_all2 (\<lambda>x y. to_datetime x = Some y) (snd (columns raw ! j)) (snd (columns out ! j))))"
proof -
  from load_and_clean_Inr [OF assms] obtain raw where
      raw: "files w (l_hourly_path self) = Some (CsvFile raw)" and
      steps: "run_steps (loader_steps to_datetime) raw = (None, out)"
    by blast
  define f0 where "f0 = rename rename_map raw"
  from loader_steps_None [OF steps] obtain d d' t t' h h' ws ws' wd where
      d: "getitem f0 ''date'' = Inr d" "those (map to_datetime d) = Some d'" and
      t: "getitem f0 ''temp'' = Inr t" "series_mul t 41 = Inr t'" and
      h: "getitem f0 ''humidity_norm'' = Inr h" "series_mul h 100 = Inr h'" and
      ws: "getitem f0 ''windspeed'' = Inr ws" "series_mul ws 67 = Inr ws'" and
      wd: "getitem f0 ''is_working_day'' = Inr wd" and
      out: "out = setitem ''day_type'' (map day_type_label wd)
                   (setitem ''wind_speed_real'' ws'
                      (setitem ''humidity_real'' h'
                         (setitem ''temp_c'' t' (setitem ''date'' d' f0))))"
    unfolding f0_def by blast
  have n: "nrows out = nrows raw"
    by (simp add: out f0_def nrows_setitem nrows_rename)
  have wf: "wf_frame out" if "wf_frame raw"
  proof -
    have wf0: "wf_frame f0" using that by (simp add: f0_def wf_frame_rename)
    have n0: "nrows f0 = nrows raw" by (simp add: f0_def nrows_rename)
    have ld: "length d' = nrows f0"
      using those_map_length [OF d(2)] wf_frame_getitem [OF wf0 d(1)] by simp
    have lt: "length t' = nrows f0"
      using series_mul_length [OF t(2)] wf_frame_getitem [OF wf0 t(1)] by simp
    have lh: "length h' = nrows f0"
      using series_mul_length [OF h(2)] wf_frame_getitem [OF wf0 h(1)] by simp
    have lw: "length ws' = nrows f0"
      using series_mul_length [OF ws(2)] wf_frame_getitem [OF wf0 ws(1)] by simp
    have lwd: "length wd = nrows f0"
      using wf_frame_getitem [OF wf0 wd] by simp
    show ?thesis
      unfolding out
      by (intro wf_frame_setitem wf0) (simp_all add: nrows_setitem ld lt lh lw lwd)
  qed
  have len: "length (columns raw) \<le> length (columns out)"
  proof -
    have "\<And>j. j < length (columns f0) \<Longrightarrow> j < length (columns out)"
      unfolding out by (intro length_columns_setitem)
    then have "length (columns f0) \<le> length (columns out)"
      by (meson not_le order_less_irrefl)
    then show ?thesis by (simp add: f0_def length_columns_rename)
  qed
  have cols: "fst (columns out ! j) = rename_label rename_map (fst (columns raw ! j)) \<and>
              (fst (columns out ! j) \<notin> {''date'', ''temp_c'', ''humidity_real'', ''wind_speed_real'', ''day_type''}
                 \<longrightarrow> snd (columns out ! j) = snd (columns raw ! j)) \<and>
              (fst (columns out ! j) = ''date''
                 \<longrightarrow> list_all2 (\<lambda>x y. to_datetime x = Some y) (snd (columns raw ! j)) (snd (columns out ! j)))"
    if j: "j < length (columns raw)" for j
  proof -
    have j0: "j < length (columns f0)" using j by (simp add: f0_def length_columns_rename)
    have c0: "columns f0 ! j = (rename_label rename_map (fst (columns raw ! j)), snd (columns raw ! j))"
      using j by (simp add: f0_def nth_columns_rename)
    have lbl: "fst (columns out ! j) = fst (columns f0 ! j)"
      unfolding out using j0 by (simp add: fst_nth_setitem length_columns_setitem)
    have val: "snd (columns out ! j) =
        (if fst (columns f0 ! j) = ''day_type'' then map day_type_label wd
         else if fst (columns f0 ! j) = ''wind_speed_real'' then ws'
         else if fst (columns f0 ! j) = ''humidity_real'' then h'
         else if fst (columns f0 ! j) = ''temp_c'' then t'
         else if fst (columns f0 ! j) = ''date'' then d'
         else snd (columns f0 ! j))"
      unfolding out using j0 by (simp add: fst_nth_setitem snd_nth_setitem length_columns_setitem)
    have date: "snd (columns f0 ! j) = d" if "fst (columns f0 ! j) = ''date''"
    proof -
      have "(''date'', snd (columns f0 ! j)) \<in> set (columns f0)"
        using nth_label_mem [OF j0] that by simp
      then show ?thesis by (rule getitem_unique [OF d(1)])
    qed
    have conv: "list_all2 (\<lambda>x y. to_datetime x = Some y) d d'"
      using d(2) by (simp add: those_map_Some_iff)
    show ?thesis
      using date conv by (auto simp add: lbl val c0)
  qed
  show ?thesis using raw n wf len cols by blast
qed

theorem load_and_clean_preserves_rows_witness:
  "fst (load_and_clean example_to_datetime (BikeDataLoader ''data/hour.csv'' ''data/day.csv'')
          example_world) = Inr example_clean \<and>
   wf_frame example_hourly \<and> wf_frame example_clean \<and>
   nrows example_clean = nrows example_hourly \<and>
   length (columns example_hourly) \<le> length (columns example_clean)"
proof -
  from example_load_triple obtain l' w' where
    h: "load_and_clean example_to_datetime (BikeDataLoader ''data/hour.csv'' ''data/day.csv'')
          example_world = (Inr example_clean, l', w')"
    by blast
  have wf: "wf_frame example_hourly" by code_simp
  from load_and_clean_preserves_rows [OF h] obtain raw where
      "files example_world ''data/hour.csv'' = Some (CsvFile raw)" and
      "nrows example_clean = nrows raw" and
      "wf_frame raw \<longrightarrow> wf_frame example_clean" and
      "length (columns raw) \<le> length (columns example_clean)"
    unfolding example_paths by blast
  then show ?thesis using wf example_load by (simp add: example_paths)
qed

section \<open>Which renames each loader applies\<close>

text \<open>
  Claim C2, as amended. \<open>load_and_clean\<close> applies exactly the nine renames of the
  specification; \<open>process_data\<close> applies the same renames except
  \<open>workingday\<close> to \<open>is_working_day\<close>, which it leaves out. In both, the input columns come
  first in the output under these labels, and the only further labels are those of the
  four derived columns.
\<close>

theorem rename_maps_applied:
  "(load_and_clean to_datetime self w = (Inr out, self', w') \<longrightarrow>
      (\<exists>raw. files w (l_hourly_path self) = Some (CsvFile raw) \<and>
         take (length (columns raw)) (labels out) = map spec_rename (labels raw) \<and>
         set (drop (length (columns raw)) (labels out))
           \<subseteq> {''temp_c'', ''humidity_real'', ''wind_speed_real'', ''day_type''}))
   \<and> (process_data p w = (Inr (), p', w'') \<and> os_path_exists w (p_hourly_path p) \<longrightarrow>
      (\<exists>raw out. files w (p_hourly_path p) = Some (CsvFile raw) \<and> p_df p' = Some out \<and>
         take (length (columns raw)) (labels out)
           = map (\<lambda>n. if n = ''workingday'' then n else spec_rename n) (labels raw) \<and>
         set (drop (length (columns raw)) (labels out))
           \<subseteq> {''temp_c'', ''humidity_real'', ''wind_speed_real'', ''day_type''}))"
proof (intro conjI impI)
  assume a: "load_and_clean to_datetime self w = (Inr out, self', w')"
  from load_and_clean_Inr [OF a] obtain raw where
      raw: "files w (l_hourly_path self) = Some (CsvFile raw)" and
      steps: "run_steps (loader_steps to_datetime) raw = (None, out)"
    by blast
  define f0 where "f0 = rename rename_map raw"
  from loader_steps_None [OF steps] obtain d d' t' h' ws' wd where
      d: "getitem f0 ''date'' = Inr d" and
      out: "out = setitem ''day_type'' (map day_type_label wd)
                   (setitem ''wind_speed_real'' ws'
                      (setitem ''humidity_real'' h'
                         (setitem ''temp_c'' t' (setitem ''date'' d' f0))))"
    unfolding f0_def by blast
  define f1 where "f1 = setitem ''date'' d' f0"
  have l1: "labels f1 = map spec_rename (labels raw)"
    using getitem_labels [OF d]
    by (simp add: f1_def labels_setitem f0_def labels_rename spec_rename_eq)
  have c1: "length (columns f1) = length (columns raw)"
    using arg_cong [OF l1, of length] by (simp add: labels_def)
  from derived_labels [of out _ _ _ _ f1] out
  have "take (length (columns f1)) (labels out) = labels f1 \<and>
         set (drop (length (columns f1)) (labels out))
           \<subseteq> {''temp_c'', ''humidity_real'', ''wind_speed_real'', ''day_type''}"
    by (simp add: f1_def)
  then show "\<exists>raw. files w (l_hourly_path self) = Some (CsvFile raw) \<and>
         take (length (columns raw)) (labels out) = map spec_rename (labels raw) \<and>
         set (drop (length (columns raw)) (labels out))
           \<subseteq> {''temp_c'', ''humidity_real'', ''wind_speed_real'', ''day_type''}"
    using raw by (auto simp only: l1 c1)
next
  assume a: "process_data p w = (Inr (), p', w'') \<and> os_path_exists w (p_hourly_path p)"
  from process_data_Inr [of p w p' w''] a obtain raw out t where
      raw: "files w (p_hourly_path p) = Some (CsvFile raw)" and
      steps: "run_steps pipeline_steps raw = (None, out)" and
      p': "p' = p\<lparr>p_df := Some out, p_conn := (p_conn p)(''rentals'' \<mapsto> t)\<rparr>"
    by blast
  define f0 where "f0 = rename column_map raw"
  from pipeline_steps_None [OF steps] obtain t' h' ws' wd where
      out: "out = setitem ''day_type'' (map day_type_label wd)
                   (setitem ''wind_speed_real'' ws'
                      (setitem ''humidity_real'' h' (setitem ''temp_c'' t' f0)))"
    unfolding f0_def by blast
  have l0: "labels f0 = map (\<lambda>n. if n = ''workingday'' then n else spec_rename n) (labels raw)"
    by (simp add: f0_def labels_rename column_map_eq)
  have c0: "length (columns f0) = length (columns raw)"
    by (simp add: f0_def length_columns_rename)
  from derived_labels [OF out]
  have "take (length (columns f0)) (labels out) = labels f0 \<and>
         set (drop (length (columns f0)) (labels out))
           \<subseteq> {''temp_c'', ''humidity_real'', ''wind_speed_real'', ''day_type''}" .
  then have "take (length (columns raw)) (labels out)
           = map (\<lambda>n. if n = ''workingday'' then n else spec_rename n) (labels raw) \<and>
         set (drop (length (columns raw)) (labels out))
           \<subseteq> {''temp_c'', ''humidity_real'', ''wind_speed_real'', ''day_type''}"
    by (simp only: l0 c0)
  moreover have "p_df p' = Some out" by (simp add: p')
  ultimately show "\<exists>raw out. files w (p_hourly_path p) = Some (CsvFile raw) \<and> p_df p' = Some out \<and>
         take (length (columns raw)) (labels out)
           = map (\<lambda>n. if n = ''workingday'' then n else spec_rename n) (labels raw) \<and>
         set (drop (length (columns raw)) (labels out))
           \<subseteq> {''temp_c'', ''humidity_real'', ''wind_speed_real'', ''day_type''}"
    using raw by blast
qed

theorem rename_maps_applied_witness:
  "fst (load_and_clean example_to_datetime (BikeDataLoader ''data/hour.csv'' ''data/day.csv'')
          example_world) = Inr example_clean \<and>
   take (length (columns example_hourly)) (labels example_clean)
     = map spec_rename (labels example_hourly) \<and>
   fst (process_data (BikeDataPipeline ''hour.csv'' ''day.csv'' (Some ''trips.csv'')) example_world)
     = Inr () \<and>
   os_path_exists example_world ''hour.csv'' \<and>
   take (length (columns example_hourly)) (labels example_processed)
     = map (\<lambda>n. if n = ''workingday'' then n else spec_rename n) (labels example_hourly)"
proof -
  from example_load_triple obtain l' w' where
    h: "load_and_clean example_to_datetime (BikeDataLoader ''data/hour.csv'' ''data/day.csv'')
          example_world = (Inr example_clean, l', w')"
    by blast
  from example_process_triple obtain p' w'' where
    g: "process_data (BikeDataPipeline ''hour.csv'' ''day.csv'' (Some ''trips.csv''))
          example_world = (Inr (), p', w'')" and df: "p_df p' = Some example_processed"
    by blast
  note inst = rename_maps_applied [of example_to_datetime
      "BikeDataLoader ''data/hour.csv'' ''data/day.csv''" example_world example_clean l' w'
      "BikeDataPipeline ''hour.csv'' ''day.csv'' (Some ''trips.csv'')" p' w'']
  have a: "take (length (columns example_hourly)) (labels example_clean)
     = map spec_rename (labels example_hourly)"
    using inst h by (auto simp add: example_paths)
  have b: "take (length (columns example_hourly)) (labels example_processed)
     = map (\<lambda>n. if n = ''workingday'' then n else spec_rename n) (labels example_hourly)"
    using inst g df by (auto simp add: example_paths)
  show ?thesis using a b example_load example_process(1) example_paths(1) by simp
qed

text \<open>
  The claim as stated, nine renames in every variant, fails on the sample:
  \<open>process_data\<close> leaves the label \<open>workingday\<close> where the nine renames give
  \<open>is_working_day\<close>.
\<close>

theorem rename_workingday_counterexample:
  "map_option labels
     (p_df (fst (snd (process_data (BikeDataPipeline ''hour.csv'' ''day.csv'' (Some ''trips.csv''))
                        example_world))))
     = Some [''date'', ''hour'', ''weather_code'', ''temp'', ''humidity_norm'', ''windspeed'',
             ''workingday'', ''casual'', ''registered'', ''total_rentals'', ''temp_c'',
             ''humidity_real'', ''wind_speed_real'', ''day_type''] \<and>
   map spec_rename (labels example_hourly)
     = [''date'', ''hour'', ''weather_code'', ''temp'', ''humidity_norm'', ''windspeed'',
        ''is_working_day'', ''casual'', ''registered'', ''total_rentals'']"
  by code_simp

section \<open>The day type follows the working-day flag\<close>

text \<open>
  Claim C6. In every row of a loader's output, \<open>day_type\<close> is \<open>Working Day\<close> if and only
  if the working-day flag of that row equals 1, be it the \<open>int64\<close> or the \<open>float64\<close> of
  that value, and \<open>Weekend/Holiday\<close> for any other value of the flag. The flag is the
  column \<open>is_working_day\<close> in the output of \<open>load_and_clean\<close> and the column
  \<open>workingday\<close> in the frame of \<open>process_data\<close>.
\<close>

theorem day_type_iff_working_day:
  "(load_and_clean to_datetime self w = (Inr out, self', w') \<longrightarrow>
      (\<exists>flag. getitem out ''is_working_day'' = Inr flag \<and>
         (\<exists>s. (''day_type'', s) \<in> set (columns out)) \<and>
         (\<forall>s. (''day_type'', s) \<in> set (columns out) \<longrightarrow>
            list_all2 (\<lambda>x y. (y = Str ''Working Day'' \<longleftrightarrow> x = Int64 1 \<or> x = Num 1) \<and>
                              (x \<noteq> Int64 1 \<and> x \<noteq> Num 1 \<longrightarrow> y = Str ''Weekend/Holiday'')) flag s)))
   \<and> (process_data p w = (Inr (), p', w'') \<and> os_path_exists w (p_hourly_path p) \<longrightarrow>
      (\<exists>out flag. p_df p' = Some out \<and> getitem out ''workingday'' = Inr flag \<and>
         (\<exists>s. (''day_type'', s) \<in> set (columns out)) \<and>
         (\<forall>s. (''day_type'', s) \<in> set (columns out) \<longrightarrow>
            list_all2 (\<lambda>x y. (y = Str ''Working Day'' \<longleftrightarrow> x = Int64 1 \<or> x = Num 1) \<and>
                              (x \<noteq> Int64 1 \<and> x \<noteq> Num 1 \<longrightarrow> y = Str ''Weekend/Holiday'')) flag s)))"
proof (intro conjI impI)
  assume a: "load_and_clean to_datetime self w = (Inr out, self', w')"
  from load_and_clean_Inr [OF a] obtain raw where
      steps: "run_steps (loader_steps to_datetime) raw = (None, out)"
    by blast
  define f0 where "f0 = rename rename_map raw"
  from loader_steps_None [OF steps] obtain d' t' h' ws' wd where
      wd: "getitem f0 ''is_working_day'' = Inr wd" and
      out: "out = setitem ''day_type'' (map day_type_label wd)
                   (setitem ''wind_speed_real'' ws'
                      (setitem ''humidity_real'' h'
                         (setitem ''temp_c'' t' (setitem ''date'' d' f0))))"
    unfolding f0_def by blast
  have wd1: "getitem (setitem ''date'' d' f0) ''is_working_day'' = Inr wd"
    using wd by (simp add: getitem_setitem_other)
  from derived_day_type [OF out wd1]
  show "\<exists>flag. getitem out ''is_working_day'' = Inr flag \<and>
         (\<exists>s. (''day_type'', s) \<in> set (columns out)) \<and>
         (\<forall>s. (''day_type'', s) \<in> set (columns out) \<longrightarrow>
            list_all2 (\<lambda>x y. (y = Str ''Working Day'' \<longleftrightarrow> x = Int64 1 \<or> x = Num 1) \<and>
                              (x \<noteq> Int64 1 \<and> x \<noteq> Num 1 \<longrightarrow> y = Str ''Weekend/Holiday'')) flag s)"
    by simp
next
  assume a: "process_data p w = (Inr (), p', w'') \<and> os_path_exists w (p_hourly_path p)"
  from process_data_Inr [of p w p' w''] a obtain raw out t where
      steps: "run_steps pipeline_steps raw = (None, out)" and
      p': "p' = p\<lparr>p_df := Some out, p_conn := (p_conn p)(''rentals'' \<mapsto> t)\<rparr>"
    by blast
  from pipeline_steps_None [OF steps] obtain t' h' ws' wd where
      wd: "getitem (rename column_map raw) ''workingday'' = Inr wd" and
      out: "out = setitem ''day_type'' (map day_type_label wd)
                   (setitem ''wind_speed_real'' ws'
                      (setitem ''humidity_real'' h' (setitem ''temp_c'' t' (rename column_map raw))))"
    by blast
  have "p_df p' = Some out" by (simp add: p')
  with derived_day_type [OF out wd]
  show "\<exists>out flag. p_df p' = Some out \<and> getitem out ''workingday'' = Inr flag \<and>
         (\<exists>s. (''day_type'', s) \<in> set (columns out)) \<and>
         (\<forall>s. (''day_type'', s) \<in> set (columns out) \<longrightarrow>
            list_all2 (\<lambda>x y. (y = Str ''Working Day'' \<longleftrightarrow> x = Int64 1 \<or> x = Num 1) \<and>
                              (x \<noteq> Int64 1 \<and> x \<noteq> Num 1 \<longrightarrow> y = Str ''Weekend/Holiday'')) flag s)"
    by simp
qed

theorem day_type_iff_working_day_witness:
  "fst (load_and_clean example_to_datetime (BikeDataLoader ''data/hour.csv'' ''data/day.csv'')
          example_world) = Inr example_clean \<and>
   fst (process_data (BikeDataPipeline ''hour.csv'' ''day.csv'' (Some ''trips.csv'')) example_world)
     = Inr () \<and>
   os_path_exists example_world ''hour.csv'' \<and>
   getitem example_clean ''is_working_day'' = Inr [Int64 1, Int64 1, Int64 1, Int64 0] \<and>
   getitem example_processed ''workingday'' = Inr [Int64 1, Int64 1, Int64 1, Int64 0] \<and>
   list_all2 (\<lambda>x y. (y = Str ''Working Day'' \<longleftrightarrow> x = Int64 1 \<or> x = Num 1) \<and>
                     (x \<noteq> Int64 1 \<and> x \<noteq> Num 1 \<longrightarrow> y = Str ''Weekend/Holiday''))
     [Int64 1, Int64 1, Int64 1, Int64 0]
     [Str ''Working Day'', Str ''Working Day'', Str ''Working Day'', Str ''Weekend/Holiday'']"
proof -
  from example_load_triple obtain l' w' where
    h: "load_and_clean example_to_datetime (BikeDataLoader ''data/hour.csv'' ''data/day.csv'')
          example_world = (Inr example_clean, l', w')"
    by blast
  from example_process_triple obtain p' w'' where
    g: "process_data (BikeDataPipeline ''hour.csv'' ''day.csv'' (Some ''trips.csv''))
          example_world = (Inr (), p', w'')" and df: "p_df p' = Some example_processed"
    by blast
  note inst = day_type_iff_working_day [of example_to_datetime
      "BikeDataLoader ''data/hour.csv'' ''data/day.csv''" example_world example_clean l' w'
      "BikeDataPipeline ''hour.csv'' ''day.csv'' (Some ''trips.csv'')" p' w'']
  have flag: "getitem example_clean ''is_working_day'' = Inr [Int64 1, Int64 1, Int64 1, Int64 0]"
    by code_simp
  have flag': "getitem example_processed ''workingday'' = Inr [Int64 1, Int64 1, Int64 1, Int64 0]"
    by code_simp
  have col: "(''day_type'', [Str ''Working Day'', Str ''Working Day'', Str ''Working Day'',
               Str ''Weekend/Holiday'']) \<in> set (columns example_clean)"
    by (simp add: example_clean_def)
  from conjunct1 [OF inst] h
  have "\<exists>fl. getitem example_clean ''is_working_day'' = Inr fl \<and>
         (\<exists>s. (''day_type'', s) \<in> set (columns example_clean)) \<and>
         (\<forall>s. (''day_type'', s) \<in> set (columns example_clean) \<longrightarrow>
            list_all2 (\<lambda>x y. (y = Str ''Working Day'' \<longleftrightarrow> x = Int64 1 \<or> x = Num 1) \<and>
                              (x \<noteq> Int64 1 \<and> x \<noteq> Num 1 \<longrightarrow> y = Str ''Weekend/Holiday'')) fl s)"
    by (rule mp)
  then obtain fl where
      fl: "getitem example_clean ''is_working_day'' = Inr fl" and
      rows: "\<forall>s. (''day_type'', s) \<in> set (columns example_clean) \<longrightarrow>
            list_all2 (\<lambda>x y. (y = Str ''Working Day'' \<longleftrightarrow> x = Int64 1 \<or> x = Num 1) \<and>
                              (x \<noteq> Int64 1 \<and> x \<noteq> Num 1 \<longrightarrow> y = Str ''Weekend/Holiday'')) fl s"
    by (elim exE conjE)
  have "fl = [Int64 1, Int64 1, Int64 1, Int64 0]" using fl flag by simp
  with rows [rule_format, OF col]
  have "list_all2 (\<lambda>x y. (y = Str ''Working Day'' \<longleftrightarrow> x = Int64 1 \<or> x = Num 1) \<and>
                     (x \<noteq> Int64 1 \<and> x \<noteq> Num 1 \<longrightarrow> y = Str ''Weekend/Holiday''))
     [Int64 1, Int64 1, Int64 1, Int64 0]
     [Str ''Working Day'', Str ''Working Day'', Str ''Working Day'', Str ''Weekend/Holiday'']"
    by (simp only:)
  then show ?thesis
    using example_load example_process(1) example_paths(1) flag flag' by (intro conjI)
qed

section \<open>The derived columns restore the real units\<close>

text \<open>
  Claim C7, as amended. In every row of a loader's output, \<open>temp_c\<close> is \<open>temp\<close> times 41,
  \<open>humidity_real\<close> is \<open>humidity_norm\<close> times 100 and \<open>wind_speed_real\<close> is \<open>windspeed\<close>
  times 67, each in the arithmetic of its column: for a finite \<open>float64\<close> value the
  product rounded to the nearest \<open>float64\<close> (within the rounding error of the product
  when finite, infinite when it overflows), for an \<open>int64\<close> value the product modulo
  \<open>2^64\<close>, which is the product itself when that lies between \<open>-2^63\<close> and \<open>2^63\<close>; a
  missing value stays missing and an infinite one infinite. The normalised source
  columns are still there, unchanged: \<open>temp\<close> and \<open>windspeed\<close> as read from the file,
  \<open>humidity_norm\<close> with the series read under \<open>hum\<close> (or under \<open>humidity_norm\<close> itself).
\<close>

theorem derived_columns_scaled:
  "(load_and_clean to_datetime self w = (Inr out, self', w') \<longrightarrow>
      (\<exists>raw h. files w (l_hourly_path self) = Some (CsvFile raw) \<and>
         derived_from out ''temp_c'' 41 ''temp'' \<and>
         derived_from out ''humidity_real'' 100 ''humidity_norm'' \<and>
         derived_from out ''wind_speed_real'' 67 ''windspeed'' \<and>
         getitem out ''temp'' = getitem raw ''temp'' \<and>
         getitem out ''windspeed'' = getitem raw ''windspeed'' \<and>
         getitem out ''humidity_norm'' = Inr h \<and>
         ((''hum'', h) \<in> set (columns raw) \<or> (''humidity_norm'', h) \<in> set (columns raw))))
   \<and> (process_data p w = (Inr (), p', w'') \<and> os_path_exists w (p_hourly_path p) \<longrightarrow>
      (\<exists>raw out h. files w (p_hourly_path p) = Some (CsvFile raw) \<and> p_df p' = Some out \<and>
         derived_from out ''temp_c'' 41 ''temp'' \<and>
         derived_from out ''humidity_real'' 100 ''humidity_norm'' \<and>
         derived_from out ''wind_speed_real'' 67 ''windspeed'' \<and>
         getitem out ''temp'' = getitem raw ''temp'' \<and>
         getitem out ''windspeed'' = getitem raw ''windspeed'' \<and>
         getitem out ''humidity_norm'' = Inr h \<and>
         ((''hum'', h) \<in> set (columns raw) \<or> (''humidity_norm'', h) \<in> set (columns raw))))"
proof (intro conjI impI)
  assume a: "load_and_clean to_datetime self w = (Inr out, self', w')"
  from load_and_clean_Inr [OF a] obtain raw where
      raw: "files w (l_hourly_path self) = Some (CsvFile raw)" and
      steps: "run_steps (loader_steps to_datetime) raw = (None, out)"
    by blast
  define f0 where "f0 = rename rename_map raw"
  from loader_steps_None [OF steps] obtain d' t t' h h' ws ws' wd where
      t: "getitem f0 ''temp'' = Inr t" "series_mul t 41 = Inr t'" and
      h: "getitem f0 ''humidity_norm'' = Inr h" "series_mul h 100 = Inr h'" and
      ws: "getitem f0 ''windspeed'' = Inr ws" "series_mul ws 67 = Inr ws'" and
      out: "out = setitem ''day_type'' (map day_type_label wd)
                   (setitem ''wind_speed_real'' ws'
                      (setitem ''humidity_real'' h'
                         (setitem ''temp_c'' t' (setitem ''date'' d' f0))))"
    unfolding f0_def by blast
  define f1 where "f1 = setitem ''date'' d' f0"
  have t1: "getitem f1 ''temp'' = Inr t"
    unfolding f1_def using t(1) by (simp add: getitem_setitem_other)
  have h1: "getitem f1 ''humidity_norm'' = Inr h"
    unfolding f1_def using h(1) by (simp add: getitem_setitem_other)
  have ws1: "getitem f1 ''windspeed'' = Inr ws"
    unfolding f1_def using ws(1) by (simp add: getitem_setitem_other)
  have out1: "out = setitem ''day_type'' (map day_type_label wd)
                   (setitem ''wind_speed_real'' ws'
                      (setitem ''humidity_real'' h' (setitem ''temp_c'' t' f1)))"
    by (simp add: out f1_def)
  note c = derived_chain [OF out1 t1 t(2) h1 h(2) ws1 ws(2)]
  have rt: "getitem raw ''temp'' = Inr t"
    using t(1) unfolding f0_def by (simp only: getitem_rename_fixed [OF rename_map_temp])
  have rw: "getitem raw ''windspeed'' = Inr ws"
    using ws(1) unfolding f0_def by (simp only: getitem_rename_fixed [OF rename_map_windspeed])
  from getitem_rename_source [OF h(1) [unfolded f0_def]] obtain n0 where
      "(n0, h) \<in> set (columns raw)" "rename_label rename_map n0 = ''humidity_norm''"
    by blast
  then have rh: "(''hum'', h) \<in> set (columns raw) \<or> (''humidity_norm'', h) \<in> set (columns raw)"
    using rename_map_humidity [of n0] by blast
  show "\<exists>raw h. files w (l_hourly_path self) = Some (CsvFile raw) \<and>
         derived_from out ''temp_c'' 41 ''temp'' \<and>
         derived_from out ''humidity_real'' 100 ''humidity_norm'' \<and>
         derived_from out ''wind_speed_real'' 67 ''windspeed'' \<and>
         getitem out ''temp'' = getitem raw ''temp'' \<and>
         getitem out ''windspeed'' = getitem raw ''windspeed'' \<and>
         getitem out ''humidity_norm'' = Inr h \<and>
         ((''hum'', h) \<in> set (columns raw) \<or> (''humidity_norm'', h) \<in> set (columns raw))"
    using raw c rt rw rh by (intro exI [of _ raw] exI [of _ h]) simp
next
  assume a: "process_data p w = (Inr (), p', w'') \<and> os_path_exists w (p_hourly_path p)"
  from process_data_Inr [of p w p' w''] a obtain raw out tb where
      raw: "files w (p_hourly_path p) = Some (CsvFile raw)" and
      steps: "run_steps pipeline_steps raw = (None, out)" and
      p': "p' = p\<lparr>p_df := Some out, p_conn := (p_conn p)(''rentals'' \<mapsto> tb)\<rparr>"
    by blast
  define f0 where "f0 = rename column_map raw"
  from pipeline_steps_None [OF steps] obtain t t' h h' ws ws' wd where
      t: "getitem f0 ''temp'' = Inr t" "series_mul t 41 = Inr t'" and
      h: "getitem f0 ''humidity_norm'' = Inr h" "series_mul h 100 = Inr h'" and
      ws: "getitem f0 ''windspeed'' = Inr ws" "series_mul ws 67 = Inr ws'" and
      out: "out = setitem ''day_type'' (map day_type_label wd)
                   (setitem ''wind_speed_real'' ws'
                      (setitem ''humidity_real'' h' (setitem ''temp_c'' t' f0)))"
    unfolding f0_def by blast
  note c = derived_chain [OF out t h ws]
  have rt: "getitem raw ''temp'' = Inr t"
    using t(1) unfolding f0_def by (simp only: getitem_rename_fixed [OF column_map_temp])
  have rw: "getitem raw ''windspeed'' = Inr ws"
    using ws(1) unfolding f0_def by (simp only: getitem_rename_fixed [OF column_map_windspeed])
  from getitem_rename_source [OF h(1) [unfolded f0_def]] obtain n0 where
      "(n0, h) \<in> set (columns raw)" "rename_label column_map n0 = ''humidity_norm''"
    by blast
  then have rh: "(''hum'', h) \<in> set (columns raw) \<or> (''humidity_norm'', h) \<in> set (columns raw)"
    using column_map_humidity [of n0] by blast
  have df: "p_df p' = Some out" by (simp add: p')
  show "\<exists>raw out h. files w (p_hourly_path p) = Some (CsvFile raw) \<and> p_df p' = Some out \<and>
         derived_from out ''temp_c'' 41 ''temp'' \<and>
         derived_from out ''humidity_real'' 100 ''humidity_norm'' \<and>
         derived_from out ''wind_speed_real'' 67 ''windspeed'' \<and>
         getitem out ''temp'' = getitem raw ''temp'' \<and>
         getitem out ''windspeed'' = getitem raw ''windspeed'' \<and>
         getitem out ''humidity_norm'' = Inr h \<and>
         ((''hum'', h) \<in> set (columns raw) \<or> (''humidity_norm'', h) \<in> set (columns raw))"
    using raw df c rt rw rh by (intro exI [of _ raw] exI [of _ out] exI [of _ h]) simp
qed

theorem derived_columns_scaled_witness:
  "fst (load_and_clean example_to_datetime (BikeDataLoader ''data/hour.csv'' ''data/day.csv'')
          example_world) = Inr example_clean \<and>
   fst (process_data (BikeDataPipeline ''hour.csv'' ''day.csv'' (Some ''trips.csv'')) example_world)
     = Inr () \<and>
   os_path_exists example_world ''hour.csv'' \<and>
   derived_from example_clean ''temp_c'' 41 ''temp'' \<and>
   derived_from example_clean ''humidity_real'' 100 ''humidity_norm'' \<and>
   derived_from example_clean ''wind_speed_real'' 67 ''windspeed'' \<and>
   getitem example_clean ''temp'' = getitem example_hourly ''temp'' \<and>
   derived_from example_processed ''temp_c'' 41 ''temp'' \<and>
   derived_from example_processed ''humidity_real'' 100 ''humidity_norm'' \<and>
   derived_from example_processed ''wind_speed_real'' 67 ''windspeed'' \<and>
   getitem example_processed ''windspeed'' = getitem example_hourly ''windspeed'' \<and>
   scaled_by 67 [Num 0, Num (4570252901855579 / 18014398509481984), Num (1 / 2), Num 1]
     [Num 0, Num (4784483506630059 / 281474976710656), Num (67 / 2), Num 67]"
proof -
  from example_load_triple obtain l' w' where
    h: "load_and_clean example_to_datetime (BikeDataLoader ''data/hour.csv'' ''data/day.csv'')
          example_world = (Inr example_clean, l', w')"
    by blast
  from example_process_triple obtain p' w'' where
    g: "process_data (BikeDataPipeline ''hour.csv'' ''day.csv'' (Some ''trips.csv''))
          example_world = (Inr (), p', w'')" and df: "p_df p' = Some example_processed"
    by blast
  note inst = derived_columns_scaled [of example_to_datetime
      "BikeDataLoader ''data/hour.csv'' ''data/day.csv''" example_world example_clean l' w'
      "BikeDataPipeline ''hour.csv'' ''day.csv'' (Some ''trips.csv'')" p' w'']
  have a: "derived_from example_clean ''temp_c'' 41 ''temp'' \<and>
   derived_from example_clean ''humidity_real'' 100 ''humidity_norm'' \<and>
   derived_from example_clean ''wind_speed_real'' 67 ''windspeed'' \<and>
   getitem example_clean ''temp'' = getitem example_hourly ''temp''"
    using inst h by (auto simp add: example_paths)
  have b: "derived_from example_processed ''temp_c'' 41 ''temp'' \<and>
   derived_from example_processed ''humidity_real'' 100 ''humidity_norm'' \<and>
   derived_from example_processed ''wind_speed_real'' 67 ''windspeed'' \<and>
   getitem example_processed ''windspeed'' = getitem example_hourly ''windspeed''"
    using inst g df by (auto simp add: example_paths)
  have src: "getitem example_clean ''windspeed''
      = Inr [Num 0, Num (4570252901855579 / 18014398509481984), Num (1 / 2), Num 1]"
    by code_simp
  have col: "(''wind_speed_real'',
              [Num 0, Num (4784483506630059 / 281474976710656), Num (67 / 2), Num 67])
               \<in> set (columns example_clean)"
    by (simp add: example_clean_def)
  have "derived_from example_clean ''wind_speed_real'' 67 ''windspeed''" using a by simp
  then have "list_all (\<lambda>(n, s). n = ''wind_speed_real'' \<longrightarrow>
       scaled_by 67 [Num 0, Num (4570252901855579 / 18014398509481984), Num (1 / 2), Num 1] s)
     (columns example_clean)"
    by (simp add: derived_from_def src)
  with col have c: "scaled_by 67 [Num 0, Num (4570252901855579 / 18014398509481984), Num (1 / 2), Num 1]
     [Num 0, Num (4784483506630059 / 281474976710656), Num (67 / 2), Num 67]"
    unfolding list_all_iff by fast
  show ?thesis using a b c example_load example_process(1) example_paths(1) by blast
qed

text \<open>
  The claim as stated, the product with 41 in every row, fails for the record whose
  temperature column is \<open>int64\<close> and holds 300000000000000000: the product
  12300000000000000000 does not fit and \<open>temp_c\<close> is that number less \<open>2^64\<close>. It fails for
  \<open>float64\<close> values too: the second wind speed of the sample times 67 is
  \<open>306206944424323793 / 18014398509481984\<close>, which is no \<open>float64\<close>, and
  \<open>wind_speed_real\<close> is the \<open>float64\<close> next to it.
\<close>

theorem scaled_product_counterexample:
  "fst (load_and_clean example_to_datetime (BikeDataLoader ''data/hour.csv'' ''data/day.csv'')
          wide_world) = Inr wide_clean \<and>
   getitem wide_clean ''temp'' = Inr [Int64 300000000000000000] \<and>
   getitem wide_clean ''temp_c'' = Inr [Int64 (- 6146744073709551616)] \<and>
   (300000000000000000 :: int) * 41 = 12300000000000000000 \<and>
   fst (load_and_clean example_to_datetime (BikeDataLoader ''data/hour.csv'' ''data/day.csv'')
          example_world) = Inr example_clean \<and>
   getitem example_clean ''windspeed''
     = Inr [Num 0, Num (4570252901855579 / 18014398509481984), Num (1 / 2), Num 1] \<and>
   getitem example_clean ''wind_speed_real''
     = Inr [Num 0, Num (4784483506630059 / 281474976710656), Num (67 / 2), Num 67] \<and>
   (4570252901855579 / 18014398509481984 :: rat) * 67 = 306206944424323793 / 18014398509481984 \<and>
   (4784483506630059 / 281474976710656 :: rat) = 306206944424323776 / 18014398509481984"
  by code_simp


section \<open>The temporal aggregation\<close>




section \<open>The weather aggregation\<close>




section \<open>Missing group keys\<close>

text \<open>
  Claim C10. On a cleaned table with a row whose weather code is missing, the weather
  aggregation (pandas \<open>groupby\<close>) has no output row for the missing key: its result is
  the one it computes once the rows with a missing code are removed, so these rows
  enter no group. The temporal aggregation (SQL \<open>GROUP BY\<close>) does return a group for a
  missing grouping key: a row whose hour is \<open>NULL\<close> gives an output row with hour
  \<open>NULL\<close>. The two aggregations treat missing keys differently.
\<close>

theorem null_group_keys:
  "(weather_avg pandas_mean f = Inr out \<longrightarrow>
      (\<forall>(k, ca, ra) \<in> set out. k \<noteq> Null) \<and>
      (\<exists>ks cs rs. getitem f ''weather_code'' = Inr ks \<and> getitem f ''casual'' = Inr cs \<and>
         getitem f ''registered'' = Inr rs \<and>
         out = weather_rows pandas_mean (filter (\<lambda>(k, c, r). k \<noteq> Null) (zip ks (zip cs rs)))))
   \<and> (conn ''rentals'' = Some t \<and> sql_column t ''hour'' = Some hs \<and>
       sql_column t ''day_type'' = Some ds \<and> sql_column t ''total_rentals'' = Some vs \<and>
       (SNull, d, v) \<in> set (zip hs (zip ds vs)) \<longrightarrow>
         (\<exists>out' a. temporal_query sqlite_avg conn = Inr out' \<and> (SNull, d, a) \<in> set out'))"
proof (intro conjI impI)
  assume a: "weather_avg pandas_mean f = Inr out"
  from weather_avg_columns [OF a] obtain ks cs rs where
      cols: "getitem f ''weather_code'' = Inr ks" "getitem f ''casual'' = Inr cs"
            "getitem f ''registered'' = Inr rs" and
      out: "out = weather_rows pandas_mean (zip ks (zip cs rs))"
    by blast
  show "\<forall>(k, ca, ra) \<in> set out. k \<noteq> Null"
    using weather_rows_mean(1) [of _ _ _ pandas_mean "zip ks (zip cs rs)"] unfolding out by blast
  have "out = weather_rows pandas_mean (filter (\<lambda>(k, c, r). k \<noteq> Null) (zip ks (zip cs rs)))"
    unfolding out by (rule weather_rows_drop_null)
  then show "\<exists>ks cs rs. getitem f ''weather_code'' = Inr ks \<and> getitem f ''casual'' = Inr cs \<and>
         getitem f ''registered'' = Inr rs \<and>
         out = weather_rows pandas_mean (filter (\<lambda>(k, c, r). k \<noteq> Null) (zip ks (zip cs rs)))"
    using cols by blast
next
  assume a: "conn ''rentals'' = Some t \<and> sql_column t ''hour'' = Some hs \<and>
       sql_column t ''day_type'' = Some ds \<and> sql_column t ''total_rentals'' = Some vs \<and>
       (SNull, d, v) \<in> set (zip hs (zip ds vs))"
  then have q: "temporal_query sqlite_avg conn = Inr (temporal_rows sqlite_avg (zip hs (zip ds vs)))"
    by (simp add: temporal_query_def)
  from a have "(SNull, d, v) \<in> set (zip hs (zip ds vs))" by simp
  from temporal_rows_null_hour [OF this, of sqlite_avg] q
  show "\<exists>out' a. temporal_query sqlite_avg conn = Inr out' \<and> (SNull, d, a) \<in> set out'"
    by blast
qed

theorem null_group_keys_witness:
  "weather_avg sample_mean example_clean = Inr [(Num 1, Num 10, Num 15), (Num 2, Num 7, Num 23)] \<and>
   getitem example_clean ''weather_code'' = Inr [Num 1, Num 1, Num 2, Null] \<and>
   Null \<notin> fst ` set [(Num 1, Num (10::rat), Num (15::rat)), (Num 2, Num 7, Num 23)] \<and>
   [''rentals'' \<mapsto> example_rentals] ''rentals'' = Some example_rentals \<and>
   sql_column example_rentals ''hour'' = Some [SNum 8, SNum 8, SNum 8, SNull] \<and>
   sql_column example_rentals ''day_type''
     = Some [SText ''Working Day'', SText ''Working Day'', SText ''Working Day'',
             SText ''Weekend/Holiday''] \<and>
   sql_column example_rentals ''total_rentals'' = Some [SNum 10, SNum 20, SNum 30, SNum 4] \<and>
   (SNull, SText ''Weekend/Holiday'', SNum 4)
     \<in> set (zip [SNum 8, SNum 8, SNum 8, SNull]
              (zip [SText ''Working Day'', SText ''Working Day'', SText ''Working Day'',
                    SText ''Weekend/Holiday'']
                 [SNum 10, SNum 20, SNum 30, SNum 4])) \<and>
   (\<exists>out' a. temporal_query sample_avg [''rentals'' \<mapsto> example_rentals] = Inr out' \<and>
      (SNull, SText ''Weekend/Holiday'', a) \<in> set out')"
proof -
  note inst = null_group_keys [where f = example_clean
      and out = "[(Num 1, Num 10, Num 15), (Num 2, Num 7, Num 23)]"
      and conn = "[''rentals'' \<mapsto> example_rentals]" and t = example_rentals
      and hs = "[SNum 8, SNum 8, SNum 8, SNull]"
      and ds = "[SText ''Working Day'', SText ''Working Day'', SText ''Working Day'',
                 SText ''Weekend/Holiday'']"
      and vs = "[SNum 10, SNum 20, SNum 30, SNum 4]"
      and d = "SText ''Weekend/Holiday''" and v = "SNum 4" and sqlite_avg = sample_avg
      and pandas_mean = sample_mean]
  have c: "[''rentals'' \<mapsto> example_rentals] ''rentals'' = Some example_rentals" by simp
  have m: "(SNull, SText ''Weekend/Holiday'', SNum 4)
     \<in> set (zip [SNum 8, SNum 8, SNum 8, SNull]
              (zip [SText ''Working Day'', SText ''Working Day'', SText ''Working Day'',
                    SText ''Weekend/Holiday'']
                 [SNum 10, SNum 20, SNum 30, SNum 4]))"
    by simp
  from conjunct1 [OF inst] example_weather(6)
  have "\<forall>(k, ca, ra) \<in> set [(Num 1, Num (10::rat), Num (15::rat)), (Num 2, Num 7, Num 23)]. k \<noteq> Null"
    by blast
  then have 1: "Null \<notin> fst ` set [(Num 1, Num (10::rat), Num (15::rat)), (Num 2, Num 7, Num 23)]"
    by force
  from conjunct2 [OF inst] c example_rentals_columns(2-4) m
  have 2: "\<exists>out' a. temporal_query sample_avg [''rentals'' \<mapsto> example_rentals] = Inr out' \<and>
      (SNull, SText ''Weekend/Holiday'', a) \<in> set out'"
    by blast
  show ?thesis
    using example_weather(6,1) 1 c example_rentals_columns(2-4) m 2 by (intro conjI)
qed

section \<open>The optional spatial step\<close>

text \<open>
  Claim C8, as amended. \<open>run_spatial_analysis\<close> skips, without an error and with the
  notice on standard output, exactly when no trips path is configured or the path does
  not exist. When the path exists and cannot be read, the read error is raised: the
  step is not skipped. When the trips file is read, \<open>to_sql\<close> stores it as a table and
  the table has the column \<open>Start Station\<close>, the step prints the start stations grouped
  by identifier with the number of their occurrences: five entries, or as many as there
  are distinct stations if fewer, with distinct stations, sorted by count descending,
  and no station left out has more occurrences than a printed one.
\<close>

theorem spatial_step_outcomes:
  "((case p_trips_path self of None \<Rightarrow> True | Some tp \<Rightarrow> \<not> os_path_exists w tp) \<longrightarrow>
      run_spatial_analysis dqs self w =
        (Inr (), self,
         w\<lparr>stdout := stdout w @
            [Line (CHR 0x0A # ''--- Checking for Spatial Data ---''),
             Line ''[Info] 'trips.csv' not found. Skipping spatial module.'',
             Line ''Note: The standard UCI dataset is aggregated and lacks station coordinates.'']\<rparr>))
   \<and> (p_trips_path self = Some tp \<and> os_path_exists w tp \<and>
       (files w tp = Some Unreadable \<or> files w tp = Some Directory) \<longrightarrow>
         fst (run_spatial_analysis dqs self w) = Inl OSError)
   \<and> (p_trips_path self = Some tp \<and> os_path_exists w tp \<and> files w tp = Some (CsvFile trips) \<and>
       to_sql trips = Inr t \<and> sql_column t ''Start Station'' = Some ss \<longrightarrow>
         (\<exists>top5. run_spatial_analysis dqs self w =
              (Inr (), self\<lparr>p_conn := (p_conn self)(''raw_trips'' \<mapsto> t)\<rparr>,
               w\<lparr>stdout := stdout w @
                  [Line (CHR 0x0A # ''--- Checking for Spatial Data ---''),
                   Line ''Loading raw trip logs for spatial analysis...'',
                   Table top5]\<rparr>) \<and>
            length top5 = min 5 (card (set ss)) \<and>
            distinct (map fst top5) \<and>
            sorted_wrt (\<lambda>(s1, c1) (s2, c2). c2 \<le> c1) top5 \<and>
            (\<forall>(s, c) \<in> set top5. s \<in> set ss \<and> c = count_list ss s) \<and>
            (\<forall>s \<in> set ss - fst ` set top5. \<forall>(s', c') \<in> set top5. count_list ss s \<le> c')))"
proof (intro conjI impI)
  assume "case p_trips_path self of None \<Rightarrow> True | Some tp \<Rightarrow> \<not> os_path_exists w tp"
  then show "run_spatial_analysis dqs self w =
        (Inr (), self,
         w\<lparr>stdout := stdout w @
            [Line (CHR 0x0A # ''--- Checking for Spatial Data ---''),
             Line ''[Info] 'trips.csv' not found. Skipping spatial module.'',
             Line ''Note: The standard UCI dataset is aggregated and lacks station coordinates.'']\<rparr>)"
    by (rule spatial_skip)
next
  assume "p_trips_path self = Some tp \<and> os_path_exists w tp \<and>
       (files w tp = Some Unreadable \<or> files w tp = Some Directory)"
  then show "fst (run_spatial_analysis dqs self w) = Inl OSError"
    using spatial_unreadable [of self tp w dqs] by blast
next
  assume a: "p_trips_path self = Some tp \<and> os_path_exists w tp \<and> files w tp = Some (CsvFile trips) \<and>
       to_sql trips = Inr t \<and> sql_column t ''Start Station'' = Some ss"
  then have run: "run_spatial_analysis dqs self w =
              (Inr (), self\<lparr>p_conn := (p_conn self)(''raw_trips'' \<mapsto> t)\<rparr>,
               w\<lparr>stdout := stdout w @
                  [Line (CHR 0x0A # ''--- Checking for Spatial Data ---''),
                   Line ''Loading raw trip logs for spatial analysis...'',
                   Table (station_rows ss)]\<rparr>)"
    using spatial_read [of self tp w trips t ss dqs] by blast
  show "\<exists>top5. run_spatial_analysis dqs self w =
              (Inr (), self\<lparr>p_conn := (p_conn self)(''raw_trips'' \<mapsto> t)\<rparr>,
               w\<lparr>stdout := stdout w @
                  [Line (CHR 0x0A # ''--- Checking for Spatial Data ---''),
                   Line ''Loading raw trip logs for spatial analysis...'',
                   Table top5]\<rparr>) \<and>
            length top5 = min 5 (card (set ss)) \<and>
            distinct (map fst top5) \<and>
            sorted_wrt (\<lambda>(s1, c1) (s2, c2). c2 \<le> c1) top5 \<and>
            (\<forall>(s, c) \<in> set top5. s \<in> set ss \<and> c = count_list ss s) \<and>
            (\<forall>s \<in> set ss - fst ` set top5. \<forall>(s', c') \<in> set top5. count_list ss s \<le> c')"
    using run station_rows_props [of ss]
    by (intro exI [of _ "station_rows ss"] conjI)
qed

theorem spatial_step_outcomes_witness:
  "\<not> os_path_exists empty_world ''trips.csv'' \<and>
   fst (run_spatial_analysis True (BikeDataPipeline ''hour.csv'' ''day.csv'' (Some ''trips.csv''))
          empty_world) = Inr () \<and>
   os_path_exists locked_world ''trips.csv'' \<and>
   files locked_world ''trips.csv'' = Some Unreadable \<and>
   fst (run_spatial_analysis True (BikeDataPipeline ''hour.csv'' ''day.csv'' (Some ''trips.csv''))
          locked_world) = Inl OSError \<and>
   os_path_exists example_world ''trips.csv'' \<and>
   files example_world ''trips.csv'' = Some (CsvFile example_trips) \<and>
   fst (run_spatial_analysis True (BikeDataPipeline ''hour.csv'' ''day.csv'' (Some ''trips.csv''))
          example_world) = Inr () \<and>
   sorted_wrt (\<lambda>(s1, c1) (s2, c2). c2 \<le> c1)
     [(SText ''A'', 3 :: nat), (SText ''B'', 2), (SText ''F'', 1), (SText ''E'', 1), (SText ''D'', 1)]"
proof -
  let ?p = "BikeDataPipeline ''hour.csv'' ''day.csv'' (Some ''trips.csv'')"
  let ?ss = "[SText ''A'', SText ''B'', SText ''A'', SText ''C'', SText ''A'', SText ''B'',
              SText ''D'', SText ''E'', SText ''F'']"
  have skip: "fst (run_spatial_analysis True ?p empty_world) = Inr ()"
    using conjunct1 [OF spatial_step_outcomes [where self = ?p and w = empty_world and dqs = True]]
      example_spatial(1,2)
    by simp
  have locked: "fst (run_spatial_analysis True ?p locked_world) = Inl OSError"
    using conjunct1 [OF conjunct2 [OF spatial_step_outcomes
        [where self = ?p and w = locked_world and dqs = True and tp = "''trips.csv''"]]]
      example_spatial(1,3,4)
    by simp
  from conjunct2 [OF conjunct2 [OF spatial_step_outcomes
        [where self = ?p and w = example_world and dqs = True and tp = "''trips.csv''"
           and trips = example_trips and t = "[(''Start Station'', ?ss)]" and ss = ?ss]]]
      example_spatial(1,5,6) example_trips_table(1,2)
  obtain top5 where
      run: "run_spatial_analysis True ?p example_world =
              (Inr (), ?p\<lparr>p_conn := (p_conn ?p)(''raw_trips'' \<mapsto> [(''Start Station'', ?ss)])\<rparr>,
               example_world\<lparr>stdout := stdout example_world @
                  [Line (CHR 0x0A # ''--- Checking for Spatial Data ---''),
                   Line ''Loading raw trip logs for spatial analysis...'',
                   Table top5]\<rparr>)" and
      sorted: "sorted_wrt (\<lambda>(s1, c1) (s2, c2). c2 \<le> c1) top5"
    by blast
  have ok: "fst (run_spatial_analysis True ?p example_world) = Inr ()"
    by (simp add: run)
  have "stdout (snd (snd (run_spatial_analysis True ?p example_world)))
          = stdout example_world @
                  [Line (CHR 0x0A # ''--- Checking for Spatial Data ---''),
                   Line ''Loading raw trip logs for spatial analysis...'',
                   Table top5]"
    by (simp add: run)
  moreover have "stdout example_world = []" by (simp add: example_world_def)
  ultimately have "top5 = [(SText ''A'', 3), (SText ''B'', 2), (SText ''F'', 1), (SText ''E'', 1),
               (SText ''D'', 1)]"
    using example_trips_table(3) by simp
  then have s: "sorted_wrt (\<lambda>(s1, c1) (s2, c2). c2 \<le> c1)
     [(SText ''A'', 3 :: nat), (SText ''B'', 2), (SText ''F'', 1), (SText ''E'', 1), (SText ''D'', 1)]"
    using sorted by simp
  show ?thesis
    using example_spatial(2-6) skip locked ok s by (intro conjI)
qed

text \<open>
  The claim as stated, a skip whenever the trips path is absent or unreadable, fails for
  a trips file that exists and cannot be read: the step raises.
\<close>

theorem unreadable_trips_counterexample:
  "p_trips_path (BikeDataPipeline ''hour.csv'' ''day.csv'' (Some ''trips.csv'')) = Some ''trips.csv'' \<and>
   files locked_world ''trips.csv'' = Some Unreadable \<and>
   fst (run_spatial_analysis True (BikeDataPipeline ''hour.csv'' ''day.csv'' (Some ''trips.csv''))
          locked_world) = Inl OSError \<and>
   stdout (snd (snd (run_spatial_analysis True
                       (BikeDataPipeline ''hour.csv'' ''day.csv'' (Some ''trips.csv'')) locked_world)))
     = [Line (CHR 0x0A # ''--- Checking for Spatial Data ---''),
        Line ''Loading raw trip logs for spatial analysis...'']"
  by code_simp

end
